theory Spec2Isabelle
  imports Main "HOL-Library.Sublist" "HOL-Library.Monad_Syntax"
begin

section \<open>JavaScript values of a request body\<close>

text \<open>
  The three routes of \<^verbatim>\<open>index.js\<close> read their fields from \<^verbatim>\<open>req.body\<close>. With
  \<^verbatim>\<open>express.json()\<close> in front, \<^verbatim>\<open>req.body\<close> is the value \<^verbatim>\<open>JSON.parse\<close> gave, or it is
  \<^verbatim>\<open>undefined\<close> when no JSON body was parsed. A field holds any JSON value: \<^verbatim>\<open>null\<close>, a
  boolean, a number, a string, an array or an object; an absent field reads as \<^verbatim>\<open>undefined\<close>.
  Strings are their UTF-8 bytes, as the source file stores its own literals.
\<close>

text \<open>
  A number is given the way \<^verbatim>\<open>Number::toString\<close> of ECMAScript reads it. A finite number is
  \<open>\<plusminus> s \<times> 10 ^ (n - k)\<close>, where \<open>s\<close> (\<open>significand\<close>) has \<open>k\<close> decimal digits and is the
  shortest digit string that reads back as the same double, and \<open>n\<close> (\<open>point\<close>) is the position
  of the decimal point; \<open>s = 0\<close> is zero of either sign. \<^verbatim>\<open>JSON.parse\<close> gives an infinity for a
  literal beyond the range of a double, and never NaN.
\<close>

datatype jsnumber =
    Finite (negative: bool) (significand: nat) (point: int)
  | Infinity (negative: bool)

datatype jsvalue =
    JUndefined
  | JNull
  | JBool bool
  | JNumber jsnumber
  | JString string
  | JArray "jsvalue list"
  | JObject "(string \<times> jsvalue) list"

type_synonym body = "string \<rightharpoonup> jsvalue"

text \<open>Reading a property: \<^verbatim>\<open>const { parentEmail } = req.body\<close>, for a body that is an object.\<close>

definition get_field :: "body \<Rightarrow> string \<Rightarrow> jsvalue" where
  "get_field b k = (case b k of None \<Rightarrow> JUndefined | Some v \<Rightarrow> v)"

text \<open>
  ToBoolean, as \<^verbatim>\<open>!x\<close>, \<^verbatim>\<open>x ? a : b\<close> and \<^verbatim>\<open>x || y\<close> apply it. Every array and every object is
  truthy.
\<close>

fun truthy :: "jsvalue \<Rightarrow> bool" where
  "truthy JUndefined = False"
| "truthy JNull = False"
| "truthy (JBool b) = b"
| "truthy (JNumber (Finite neg s n)) = (s \<noteq> 0)"
| "truthy (JNumber (Infinity neg)) = True"
| "truthy (JString s) = (s \<noteq> [])"
| "truthy (JArray xs) = True"
| "truthy (JObject kvs) = True"

definition js_or :: "jsvalue \<Rightarrow> jsvalue \<Rightarrow> jsvalue" where
  "js_or a b = (if truthy a then a else b)"

subsection \<open>ToString\<close>

fun digits10 :: "nat \<Rightarrow> string" where
  "digits10 n =
     (if n < 10 then [char_of (48 + n)]
      else digits10 (n div 10) @ [char_of (48 + n mod 10)])"

text \<open>
  \<^verbatim>\<open>Number::toString\<close> in radix 10: plain digits while \<open>k \<le> n \<le> 21\<close>, a decimal point inside
  the digits while \<open>0 < n \<le> 21\<close>, leading zeros while \<open>-6 < n \<le> 0\<close>, and exponent notation
  otherwise (\<^verbatim>\<open>String(1e21)\<close> is \<^verbatim>\<open>"1e+21"\<close>).
\<close>

definition number_to_string :: "jsnumber \<Rightarrow> string" where
  "number_to_string x =
     (case x of
        Infinity neg \<Rightarrow> (if neg then ''-Infinity'' else ''Infinity'')
      | Finite neg s n \<Rightarrow>
          if s = 0 then ''0''
          else
            let ds = digits10 s;
                k = int (length ds);
                e = (if n - 1 < 0 then ''-'' else ''+'') @ digits10 (nat \<bar>n - 1\<bar>);
                magnitude =
                  (if k \<le> n \<and> n \<le> 21 then ds @ replicate (nat (n - k)) (CHR ''0'')
                   else if 0 < n \<and> n \<le> 21 then take (nat n) ds @ ''.'' @ drop (nat n) ds
                   else if - 6 < n \<and> n \<le> 0 then ''0.'' @ replicate (nat (- n)) (CHR ''0'') @ ds
                   else if k = 1 then ds @ ''e'' @ e
                   else take 1 ds @ ''.'' @ drop 1 ds @ ''e'' @ e)
            in (if neg then ''-'' else '''') @ magnitude)"

text \<open>
  ToString, as a template literal's \<^verbatim>\<open>${x}\<close> and \<^verbatim>\<open>String(x)\<close> apply it; \<open>None\<close> is a thrown
  \<^verbatim>\<open>TypeError\<close>. An array is joined with commas, \<^verbatim>\<open>null\<close> elements printing as nothing
  (\<^verbatim>\<open>Array.prototype.join\<close>). A parsed object has \<^verbatim>\<open>Object.prototype\<close> as its prototype: it
  prints as \<^verbatim>\<open>[object Object]\<close>, unless it has an own property \<^verbatim>\<open>toString\<close>. That property
  holds a JSON value, which is not callable; \<^verbatim>\<open>valueOf\<close>, own or inherited, gives no primitive
  either, and the conversion throws.
\<close>

fun ToString :: "jsvalue \<Rightarrow> string option"
  and join_elements :: "jsvalue list \<Rightarrow> string option"
where
  "ToString JUndefined = Some ''undefined''"
| "ToString JNull = Some ''null''"
| "ToString (JBool b) = Some (if b then ''true'' else ''false'')"
| "ToString (JNumber x) = Some (number_to_string x)"
| "ToString (JString s) = Some s"
| "ToString (JArray xs) = join_elements xs"
| "ToString (JObject kvs) =
     (if ''toString'' \<in> fst ` set kvs then None else Some ''[object Object]'')"
| "join_elements [] = Some []"
| "join_elements (x # xs) =
     (case (if x = JUndefined \<or> x = JNull then Some [] else ToString x) of
        None \<Rightarrow> None
      | Some a \<Rightarrow>
          if xs = [] then Some a
          else map_option (\<lambda>r. a @ '','' @ r) (join_elements xs))"

subsection \<open>Template literals\<close>

text \<open>
  A template literal is its parts in source order: literal text, and substitutions
  \<^verbatim>\<open>${...}\<close> already converted to strings. Its value is the concatenation; it throws when a
  substitution threw.
\<close>

datatype part = Lit string | Sub "string option"

fun template :: "part list \<Rightarrow> string option" where
  "template [] = Some []"
| "template (Lit s # ps) = map_option (\<lambda>r. s @ r) (template ps)"
| "template (Sub v # ps) =
     (case v of None \<Rightarrow> None | Some s \<Rightarrow> map_option (\<lambda>r. s @ r) (template ps))"

subsection \<open>\<^verbatim>\<open>String.prototype.replace\<close> and \<^verbatim>\<open>String.prototype.trim\<close>\<close>

text \<open>\<^verbatim>\<open>.replace(/\n/g, "<br />")\<close>: every line feed becomes the line-break element.\<close>

definition replace_newlines :: "string \<Rightarrow> string" where
  "replace_newlines s = concat (map (\<lambda>c. if c = CHR 0x0A then ''<br />'' else [c]) s)"

text \<open>
  The code points \<^verbatim>\<open>trim()\<close> strips (WhiteSpace and LineTerminator of ECMAScript), in UTF-8:
  TAB, LF, VT, FF, CR, SP, U+00A0, U+1680, U+2000 to U+200A, U+2028, U+2029, U+202F, U+205F,
  U+3000, U+FEFF.
\<close>

definition js_whitespace :: "string list" where
  "js_whitespace =
     [[CHR 0x09], [CHR 0x0A], [CHR 0x0B], [CHR 0x0C], [CHR 0x0D], [CHR 0x20],
      [CHR 0xC2, CHR 0xA0],
      [CHR 0xE1, CHR 0x9A, CHR 0x80],
      [CHR 0xE2, CHR 0x80, CHR 0x80], [CHR 0xE2, CHR 0x80, CHR 0x81],
      [CHR 0xE2, CHR 0x80, CHR 0x82], [CHR 0xE2, CHR 0x80, CHR 0x83],
      [CHR 0xE2, CHR 0x80, CHR 0x84], [CHR 0xE2, CHR 0x80, CHR 0x85],
      [CHR 0xE2, CHR 0x80, CHR 0x86], [CHR 0xE2, CHR 0x80, CHR 0x87],
      [CHR 0xE2, CHR 0x80, CHR 0x88], [CHR 0xE2, CHR 0x80, CHR 0x89],
      [CHR 0xE2, CHR 0x80, CHR 0x8A],
      [CHR 0xE2, CHR 0x80, CHR 0xA8], [CHR 0xE2, CHR 0x80, CHR 0xA9],
      [CHR 0xE2, CHR 0x80, CHR 0xAF],
      [CHR 0xE2, CHR 0x81, CHR 0x9F],
      [CHR 0xE3, CHR 0x80, CHR 0x80],
      [CHR 0xEF, CHR 0xBB, CHR 0xBF]]"

function trimStart :: "string \<Rightarrow> string" where
  "trimStart s =
     (case find (\<lambda>w. prefix w s) js_whitespace of
        None \<Rightarrow> s
      | Some w \<Rightarrow> trimStart (drop (length w) s))"
  by pat_completeness auto
termination
proof (relation "measure length")
  show "wf (measure length)" by simp
next
  fix s :: string and w :: string
  assume "find (\<lambda>w. prefix w s) js_whitespace = Some w"
  then have "w \<in> set js_whitespace" and "prefix w s"
    by (auto simp: find_Some_iff)
  then have "w \<noteq> []" and "length w \<le> length s"
    by (auto simp: js_whitespace_def prefix_length_le)
  then show "(drop (length w) s, s) \<in> measure length"
    by (cases w) auto
qed

function trimEnd :: "string \<Rightarrow> string" where
  "trimEnd s =
     (case find (\<lambda>w. suffix w s) js_whitespace of
        None \<Rightarrow> s
      | Some w \<Rightarrow> trimEnd (take (length s - length w) s))"
  by pat_completeness auto
termination
proof (relation "measure length")
  show "wf (measure length)" by simp
next
  fix s :: string and w :: string
  assume "find (\<lambda>w. suffix w s) js_whitespace = Some w"
  then have "w \<in> set js_whitespace" and "suffix w s"
    by (auto simp: find_Some_iff)
  then have "w \<noteq> []" and "length w \<le> length s"
    by (auto simp: js_whitespace_def suffix_length_le)
  then show "(take (length s - length w) s, s) \<in> measure length"
    by (cases w) auto
qed

declare trimStart.simps [simp del]
declare trimEnd.simps [simp del]

definition trim :: "string \<Rightarrow> string" where
  "trim s = trimEnd (trimStart s)"

section \<open>Configuration and constants\<close>

text \<open>
  \<^verbatim>\<open>process.env\<close>: a variable is a string or is not set. \<open>process_env\<close> reads one as a
  JavaScript value.
\<close>

record env =
  RESEND_API_KEY :: "string option"
  RESEND_FROM :: "string option"
  ADMIN_EMAIL :: "string option"

definition process_env :: "string option \<Rightarrow> jsvalue" where
  "process_env v = (case v of None \<Rightarrow> JUndefined | Some s \<Rightarrow> JString s)"

definition BETHESDA_LOGO :: string where
  "BETHESDA_LOGO =
     ''https://res.cloudinary.com/towson008/image/upload/v1765341466/tp1aouaicde3zpykntkn.png''"

definition PICKUP_INFO_HTML :: string where
  \<open>PICKUP_INFO_HTML =
     ''\<newline>'' @
     ''  <div style="margin-top:16px; padding:12px; background:#003366; border-radius:6px;">\<newline>'' @
     ''    <p style="margin:0;"><strong>'' @ [CHR 0xF0, CHR 0x9F, CHR 0x93, CHR 0x8D] @ '' Pickup Location</strong></p>\<newline>'' @
     ''    <p style="margin:4px 0;">3310 Schmon Parkway, Thorold, ON, L2V 4Y6</p>\<newline>'' @
     ''    <p style="margin:8px 0 0;">\<newline>'' @
     ''      <strong>'' @ [CHR 0xF0, CHR 0x9F, CHR 0x95, CHR 0x92] @ '' Pickup Hours</strong><br />\<newline>'' @
     ''      Monday '' @ [CHR 0xE2, CHR 0x80, CHR 0x93] @ '' Friday: 9:00 AM '' @ [CHR 0xE2, CHR 0x80, CHR 0x93] @ '' 4:00 PM <br/>\<newline>'' @
     ''      Business Days Only\<newline>'' @
     ''    </p>\<newline>'' @
     ''  </div>\<newline>''\<close>

section \<open>The Resend client and \<^verbatim>\<open>sendEmail\<close>\<close>

text \<open>
  \<^verbatim>\<open>resend.emails.send\<close> is the external collaborator. It resolves to an object
  \<^verbatim>\<open>{ data, error }\<close> (\<open>None\<close> is \<^verbatim>\<open>null\<close>, an error object is truthy), or the awaited promise
  rejects. What it answers may depend on the message and on the messages it was handed
  before; the list of those messages is the state the handlers pass along.
  The \<^verbatim>\<open>console.error\<close> lines write to the process log only and are left out.
\<close>

record send_args =
  "to" :: jsvalue
  subject :: string
  html :: string

record outbound = send_args +
  "from" :: jsvalue

datatype resend_response =
    Resolved (data: "string option") (error: "string option")
  | Rejected string

type_synonym emails_send = "outbound list \<Rightarrow> outbound \<Rightarrow> resend_response"

definition sendEmail ::
  "env \<Rightarrow> emails_send \<Rightarrow> outbound list \<Rightarrow> send_args \<Rightarrow> (string + string option) \<times> outbound list"
where
  "sendEmail e send log a =
     (let from' = js_or (process_env (RESEND_FROM e))
                    (JString ''Bethesda Lending Library <no-reply@bethesdalendinglibrary.com>'');
          msg = \<lparr>to = to a, subject = subject a, html = html a, from = from'\<rparr>
      in case send log msg of
           Rejected x \<Rightarrow> (Inl x, log @ [msg])
         | Resolved d err \<Rightarrow>
             (case err of
                Some x \<Rightarrow> (Inl x, log @ [msg])
              | None \<Rightarrow> (Inr d, log @ [msg])))"

section \<open>The branded wrapper\<close>

text \<open>
  \<^verbatim>\<open>renderBrandedEmail({ title, content, showPickupInfo = false })\<close>: a caller that leaves
  \<^verbatim>\<open>showPickupInfo\<close> out passes \<open>None\<close> and gets the default. Other properties of the argument
  object are ignored, so the function is defined on every extension of the record.
\<close>

record render_args =
  title :: string
  content :: string
  showPickupInfo :: "bool option"

definition renderBrandedEmail :: "'z render_args_scheme \<Rightarrow> string" where
  \<open>renderBrandedEmail a =
     ''\<newline>'' @
     ''    <div style="background:#f8fafc; padding:24px; font-family:Arial, sans-serif;">\<newline>'' @
     ''      <div style="max-width:600px; margin:auto; border-radius:8px; overflow:hidden;">\<newline>'' @
     ''        \<newline>'' @
     ''        <!-- Header -->\<newline>'' @
     ''        <div style="background:#003366; padding:20px; text-align:center;">\<newline>'' @
     ''          <img src="'' @ BETHESDA_LOGO @ ''" alt="Bethesda Toy Lending Library" style="max-width:160px;" />\<newline>'' @
     ''        </div>\<newline>'' @
     ''\<newline>'' @
     ''        <!-- Body -->\<newline>'' @
     ''        <div style="padding:24px; color:#1f2937;">\<newline>'' @
     ''          <h2 style="color:#003366;">'' @ title a @ ''</h2>\<newline>'' @
     ''          '' @ content a @ ''\<newline>'' @
     ''          '' @ (if (case showPickupInfo a of None \<Rightarrow> False | Some v \<Rightarrow> v)
                       then PICKUP_INFO_HTML else '''') @ ''\<newline>'' @
     ''        </div>\<newline>'' @
     ''\<newline>'' @
     ''        <!-- Footer -->\<newline>'' @
     ''        <div style="background:#003366; padding:16px; font-size:12px; text-align:center; color:#ffffff;">\<newline>'' @
     ''          <p style="margin:0;">Bethesda Toy Lending Library</p>\<newline>'' @
     ''          <p style="margin:4px 0;">'' @ [CHR 0xC2, CHR 0xA9] @ '' 2025 Bethesda Services</p>\<newline>'' @
     ''        </div>\<newline>'' @
     ''\<newline>'' @
     ''      </div>\<newline>'' @
     ''    </div>\<newline>'' @
     ''  ''\<close>

section \<open>The template literals of the routes\<close>

text \<open>
  Each template literal of a route is a definition of its own, a function of the variables
  it interpolates, line for line as in the source. The result is \<open>None\<close> when the conversion
  of an interpolated value throws.
\<close>

definition reservation_pickup_line :: "jsvalue \<Rightarrow> string option" where
  \<open>reservation_pickup_line preferredDay =
     (if truthy preferredDay
      then template
             [Lit ''Preferred pick-up day: <strong>'', Sub (ToString preferredDay),
              Lit ''</strong>.'']
      else Some ''We will contact you with pick-up details soon.'')\<close>

definition reservation_subject :: "jsvalue \<Rightarrow> string option" where
  \<open>reservation_subject itemName =
     template [Lit ''Reservation received for "'', Sub (ToString itemName), Lit ''"'']\<close>

definition reservation_content ::
  "jsvalue \<Rightarrow> jsvalue \<Rightarrow> jsvalue \<Rightarrow> string \<Rightarrow> jsvalue \<Rightarrow> string option"
where
  \<open>reservation_content parentName itemName childName pickupLine note =
     template
       [Lit ''\<newline>'',
        Lit ''          <p>Hi '', Sub (ToString (js_or parentName (JString ''there''))),
          Lit '',</p>\<newline>'',
        Lit ''          <p>\<newline>'',
        Lit ''            We have received your reservation for\<newline>'',
        Lit ''            <strong>'', Sub (ToString itemName), Lit ''</strong>\<newline>'',
        Lit ''            '',
          Sub (if truthy childName
               then template [Lit ''for '', Sub (ToString childName)]
               else Some ''''),
          Lit ''.\<newline>'',
        Lit ''          </p>\<newline>'',
        Lit ''          <p>'', Sub (Some pickupLine), Lit ''</p>\<newline>'',
        Lit ''          '',
          Sub (if truthy note
               then template
                      [Lit ''<p><strong>Your note:</strong><br />'',
                       Sub (map_option (\<lambda>s. trim (replace_newlines s)) (ToString note)),
                       Lit ''</p>'']
               else Some ''''),
          Lit ''\<newline>'',
        Lit ''          <p>\<newline>'',
        Lit ''            We will send another email when this toy is\<newline>'',
        Lit ''            <strong>ready for pickup</strong>.\<newline>'',
        Lit ''          </p>\<newline>'',
        Lit ''        '']\<close>

definition reservation_admin_subject :: "jsvalue \<Rightarrow> string option" where
  \<open>reservation_admin_subject itemName =
     template [Lit ''New reservation: "'', Sub (ToString itemName), Lit ''"'']\<close>

definition reservation_admin_html ::
  "jsvalue \<Rightarrow> jsvalue \<Rightarrow> jsvalue \<Rightarrow> jsvalue \<Rightarrow> jsvalue \<Rightarrow> string option"
where
  \<open>reservation_admin_html parentName parentEmail childName itemName preferredDay =
     template
       [Lit ''\<newline>'',
        Lit ''          <h3>New Reservation</h3>\<newline>'',
        Lit ''          <p><strong>Parent:</strong> '',
          Sub (ToString (js_or parentName (JString ''N/A''))),
          Lit '' ('', Sub (ToString parentEmail), Lit '')</p>\<newline>'',
        Lit ''          <p><strong>Child:</strong> '',
          Sub (ToString (js_or childName (JString ''N/A''))), Lit ''</p>\<newline>'',
        Lit ''          <p><strong>Item:</strong> '', Sub (ToString itemName), Lit ''</p>\<newline>'',
        Lit ''          <p><strong>Preferred pickup:</strong> '',
          Sub (ToString (js_or preferredDay (JString ''N/A''))), Lit ''</p>\<newline>'',
        Lit ''        '']\<close>

definition waitlist_subject :: "jsvalue \<Rightarrow> string option" where
  \<open>waitlist_subject itemName =
     template [Lit ''Waitlist request for "'', Sub (ToString itemName), Lit ''" received'']\<close>

definition waitlist_content :: "jsvalue \<Rightarrow> jsvalue \<Rightarrow> jsvalue \<Rightarrow> string option" where
  \<open>waitlist_content parentName itemName childName =
     template
       [Lit ''\<newline>'',
        Lit ''          <p>Hi '', Sub (ToString (js_or parentName (JString ''there''))),
          Lit '',</p>\<newline>'',
        Lit ''          <p>\<newline>'',
        Lit ''            You have been added to the waitlist for\<newline>'',
        Lit ''            <strong>'', Sub (ToString itemName), Lit ''</strong>\<newline>'',
        Lit ''            '',
          Sub (if truthy childName
               then template [Lit ''for '', Sub (ToString childName)]
               else Some ''''),
          Lit ''.\<newline>'',
        Lit ''          </p>\<newline>'',
        Lit ''          <p>\<newline>'',
        Lit ''            We will contact you as soon as this toy becomes available.\<newline>'',
        Lit ''          </p>\<newline>'',
        Lit ''        '']\<close>

definition waitlist_admin_subject :: "jsvalue \<Rightarrow> string option" where
  \<open>waitlist_admin_subject itemName =
     template [Lit ''New waitlist request: "'', Sub (ToString itemName), Lit ''"'']\<close>

definition waitlist_admin_html ::
  "jsvalue \<Rightarrow> jsvalue \<Rightarrow> jsvalue \<Rightarrow> jsvalue \<Rightarrow> string option"
where
  \<open>waitlist_admin_html parentName parentEmail childName itemName =
     template
       [Lit ''\<newline>'',
        Lit ''          <h3>New Waitlist Entry</h3>\<newline>'',
        Lit ''          <p><strong>Parent:</strong> '',
          Sub (ToString (js_or parentName (JString ''N/A''))),
          Lit '' ('', Sub (ToString parentEmail), Lit '')</p>\<newline>'',
        Lit ''          <p><strong>Child:</strong> '',
          Sub (ToString (js_or childName (JString ''N/A''))), Lit ''</p>\<newline>'',
        Lit ''          <p><strong>Item:</strong> '', Sub (ToString itemName), Lit ''</p>\<newline>'',
        Lit ''        '']\<close>

definition update_subject :: "jsvalue \<Rightarrow> string option" where
  \<open>update_subject itemName =
     template [Lit ''Update for "'', Sub (ToString itemName), Lit ''"'']\<close>

definition ready_subject :: "jsvalue \<Rightarrow> string option" where
  \<open>ready_subject itemName =
     template
       [Lit ([CHR 0xF0, CHR 0x9F, CHR 0x8E, CHR 0x89] @ '' "''), Sub (ToString itemName),
        Lit ''" is ready for pickup'']\<close>

definition ready_content ::
  "jsvalue \<Rightarrow> jsvalue \<Rightarrow> jsvalue \<Rightarrow> jsvalue \<Rightarrow> string option"
where
  \<open>ready_content parentName itemName childName preferredDay =
     template
       [Lit ''\<newline>'',
        Lit ''          <p>Hi '', Sub (ToString (js_or parentName (JString ''there''))),
          Lit '',</p>\<newline>'',
        Lit ''          <p>\<newline>'',
        Lit ''            Great news! <strong>'', Sub (ToString itemName), Lit ''</strong>\<newline>'',
        Lit ''            '',
          Sub (if truthy childName
               then template [Lit ''for '', Sub (ToString childName)]
               else Some ''''),
          Lit '' is now\<newline>'',
        Lit ''            <strong>ready for pickup</strong>.\<newline>'',
        Lit ''          </p>\<newline>'',
        Lit ''          '',
          Sub (if truthy preferredDay
               then template
                      [Lit ''<p>You requested pickup on <strong>'', Sub (ToString preferredDay),
                       Lit ''</strong>.</p>'']
               else Some ''''),
          Lit ''\<newline>'',
        Lit ''          <h4>Note: You will be required to show this confirmationemail with you when you come.</h4>\<newline>'',
        Lit ''        '']\<close>

definition returned_content :: "jsvalue \<Rightarrow> jsvalue \<Rightarrow> string option" where
  \<open>returned_content parentName itemName =
     template
       [Lit ''\<newline>'',
        Lit ''          <p>Hi '', Sub (ToString (js_or parentName (JString ''there''))),
          Lit '',</p>\<newline>'',
        Lit ''          <p>\<newline>'',
        Lit ''            We have marked <strong>'', Sub (ToString itemName),
          Lit ''</strong> as\<newline>'',
        Lit ''            <strong>Returned</strong>.\<newline>'',
        Lit ''          </p>\<newline>'',
        Lit ''          <p>Thank you for using the Toy Lending Library!</p>\<newline>'',
        Lit ''        '']\<close>

section \<open>The routes\<close>

text \<open>
  A handler takes the configuration, the collaborator, the messages handed to it so far and
  \<^verbatim>\<open>req.body\<close> (\<open>None\<close> when it is \<^verbatim>\<open>undefined\<close>); it returns the HTTP response
  (\<^verbatim>\<open>res.json\<close> answers 200 unless \<^verbatim>\<open>res.status\<close> was set) and the messages handed to the
  collaborator, the new ones last. The whole body of a handler is its \<^verbatim>\<open>try\<close> block: whatever
  is thrown there is answered 500 by the \<^verbatim>\<open>catch\<close> block. That is the error \<^verbatim>\<open>sendEmail\<close>
  throws, the \<^verbatim>\<open>TypeError\<close> of destructuring an undefined body, and the \<^verbatim>\<open>TypeError\<close> of a
  template literal that interpolates an object it cannot convert. The arguments of a
  \<^verbatim>\<open>sendEmail\<close> call are evaluated before the call.
\<close>

record response =
  status :: nat
  body :: "(string \<times> jsvalue) list"

text \<open>\<^verbatim>\<open>app.post("/email/reservation-created", ...)\<close>\<close>

definition reservation_created ::
  "env \<Rightarrow> emails_send \<Rightarrow> outbound list \<Rightarrow> body option \<Rightarrow> response \<times> outbound list"
where
  \<open>reservation_created e send log req_body =
     (case req_body of
        None \<Rightarrow> (\<lparr>status = 500, body = [(''error'', JString ''Failed to send email'')]\<rparr>, log)
      | Some b \<Rightarrow>
     (let parentEmail = get_field b ''parentEmail'';
          parentName = get_field b ''parentName'';
          childName = get_field b ''childName'';
          itemName = get_field b ''itemName'';
          preferredDay = get_field b ''preferredDay'';
          note = get_field b ''note''
      in
      if \<not> truthy parentEmail \<or> \<not> truthy itemName then
        (\<lparr>status = 400, body = [(''error'', JString ''Missing required fields'')]\<rparr>, log)
      else
        case do {
               pickupLine \<leftarrow> reservation_pickup_line preferredDay;
               subject1 \<leftarrow> reservation_subject itemName;
               content1 \<leftarrow> reservation_content parentName itemName childName pickupLine note;
               Some \<lparr>to = parentEmail,
                     subject = subject1,
                     html = renderBrandedEmail
                       \<lparr>title = ''Reservation Received'',
                        content = content1,
                        showPickupInfo = Some False\<rparr>\<rparr>
             }
        of
          None \<Rightarrow>
            (\<lparr>status = 500, body = [(''error'', JString ''Failed to send email'')]\<rparr>, log)
        | Some recipient \<Rightarrow>
        (case sendEmail e send log recipient of
          (Inl err, log1) \<Rightarrow>
            (\<lparr>status = 500, body = [(''error'', JString ''Failed to send email'')]\<rparr>, log1)
        | (Inr d, log1) \<Rightarrow>
            if truthy (process_env (ADMIN_EMAIL e)) then
              (case do {
                      subject2 \<leftarrow> reservation_admin_subject itemName;
                      html2 \<leftarrow> reservation_admin_html parentName parentEmail childName itemName
                                preferredDay;
                      Some \<lparr>to = process_env (ADMIN_EMAIL e), subject = subject2, html = html2\<rparr>
                    }
               of
                 None \<Rightarrow>
                   (\<lparr>status = 500, body = [(''error'', JString ''Failed to send email'')]\<rparr>, log1)
               | Some admin \<Rightarrow>
               (case sendEmail e send log1 admin of
                 (Inl err, log2) \<Rightarrow>
                   (\<lparr>status = 500, body = [(''error'', JString ''Failed to send email'')]\<rparr>, log2)
               | (Inr d', log2) \<Rightarrow>
                   (\<lparr>status = 200, body = [(''ok'', JBool True)]\<rparr>, log2)))
            else
              (\<lparr>status = 200, body = [(''ok'', JBool True)]\<rparr>, log1))))\<close>

text \<open>\<^verbatim>\<open>app.post("/email/waitlist-created", ...)\<close>\<close>

definition waitlist_created ::
  "env \<Rightarrow> emails_send \<Rightarrow> outbound list \<Rightarrow> body option \<Rightarrow> response \<times> outbound list"
where
  \<open>waitlist_created e send log req_body =
     (case req_body of
        None \<Rightarrow> (\<lparr>status = 500, body = [(''error'', JString ''Failed to send email'')]\<rparr>, log)
      | Some b \<Rightarrow>
     (let parentEmail = get_field b ''parentEmail'';
          parentName = get_field b ''parentName'';
          childName = get_field b ''childName'';
          itemName = get_field b ''itemName''
      in
      if \<not> truthy parentEmail \<or> \<not> truthy itemName then
        (\<lparr>status = 400, body = [(''error'', JString ''Missing required fields'')]\<rparr>, log)
      else
        case do {
               subject1 \<leftarrow> waitlist_subject itemName;
               content1 \<leftarrow> waitlist_content parentName itemName childName;
               Some \<lparr>to = parentEmail,
                     subject = subject1,
                     html = renderBrandedEmail
                       \<lparr>title = ''Waitlist Confirmation'',
                        content = content1,
                        showPickupInfo = None\<rparr>\<rparr>
             }
        of
          None \<Rightarrow>
            (\<lparr>status = 500, body = [(''error'', JString ''Failed to send email'')]\<rparr>, log)
        | Some recipient \<Rightarrow>
        (case sendEmail e send log recipient of
          (Inl err, log1) \<Rightarrow>
            (\<lparr>status = 500, body = [(''error'', JString ''Failed to send email'')]\<rparr>, log1)
        | (Inr d, log1) \<Rightarrow>
            if truthy (process_env (ADMIN_EMAIL e)) then
              (case do {
                      subject2 \<leftarrow> waitlist_admin_subject itemName;
                      html2 \<leftarrow> waitlist_admin_html parentName parentEmail childName itemName;
                      Some \<lparr>to = process_env (ADMIN_EMAIL e), subject = subject2, html = html2\<rparr>
                    }
               of
                 None \<Rightarrow>
                   (\<lparr>status = 500, body = [(''error'', JString ''Failed to send email'')]\<rparr>, log1)
               | Some admin \<Rightarrow>
               (case sendEmail e send log1 admin of
                 (Inl err, log2) \<Rightarrow>
                   (\<lparr>status = 500, body = [(''error'', JString ''Failed to send email'')]\<rparr>, log2)
               | (Inr d', log2) \<Rightarrow>
                   (\<lparr>status = 200, body = [(''ok'', JBool True)]\<rparr>, log2)))
            else
              (\<lparr>status = 200, body = [(''ok'', JBool True)]\<rparr>, log1))))\<close>

text \<open>
  \<^verbatim>\<open>app.post("/email/status-updated", ...)\<close>. The two \<^verbatim>\<open>let\<close> variables \<^verbatim>\<open>subject\<close> and
  \<^verbatim>\<open>html\<close> are assigned by the branches; \<open>subject1\<close> and \<open>html1\<close> are their values after the
  \<^verbatim>\<open>if\<close>/\<^verbatim>\<open>else if\<close>.
\<close>

definition status_updated ::
  "env \<Rightarrow> emails_send \<Rightarrow> outbound list \<Rightarrow> body option \<Rightarrow> response \<times> outbound list"
where
  \<open>status_updated e send log req_body =
     (case req_body of
        None \<Rightarrow> (\<lparr>status = 500, body = [(''error'', JString ''Failed to send email'')]\<rparr>, log)
      | Some b \<Rightarrow>
     (let parentEmail = get_field b ''parentEmail'';
          parentName = get_field b ''parentName'';
          childName = get_field b ''childName'';
          itemName = get_field b ''itemName'';
          newStatus = get_field b ''newStatus'';
          preferredDay = get_field b ''preferredDay''
      in
      if \<not> truthy parentEmail \<or> \<not> truthy itemName \<or> \<not> truthy newStatus then
        (\<lparr>status = 400, body = [(''error'', JString ''Missing required fields'')]\<rparr>, log)
      else if newStatus = JString ''On Loan'' then
        (\<lparr>status = 200, body = [(''skipped'', JBool True)]\<rparr>, log)
      else
        case do {
               subject0 \<leftarrow> update_subject itemName;
               (subject1, html1) \<leftarrow>
                 (if newStatus = JString ''Ready for Pickup'' then do {
                    subject' \<leftarrow> ready_subject itemName;
                    content1 \<leftarrow> ready_content parentName itemName childName preferredDay;
                    Some (subject',
                          renderBrandedEmail
                            \<lparr>title = ''Your Toy is Ready for Pickup'',
                             content = content1,
                             showPickupInfo = Some True\<rparr>)
                  }
                  else if newStatus = JString ''Returned'' then do {
                    content1 \<leftarrow> returned_content parentName itemName;
                    Some (subject0,
                          renderBrandedEmail
                            \<lparr>title = ''Thank You'',
                             content = content1,
                             showPickupInfo = None\<rparr>)
                  }
                  else Some (subject0, ''''));
               Some \<lparr>to = parentEmail, subject = subject1, html = html1\<rparr>
             }
        of
          None \<Rightarrow>
            (\<lparr>status = 500, body = [(''error'', JString ''Failed to send email'')]\<rparr>, log)
        | Some message \<Rightarrow>
        (case sendEmail e send log message of
          (Inl err, log1) \<Rightarrow>
            (\<lparr>status = 500, body = [(''error'', JString ''Failed to send email'')]\<rparr>, log1)
        | (Inr d, log1) \<Rightarrow>
            (\<lparr>status = 200, body = [(''ok'', JBool True)]\<rparr>, log1))))\<close>

section \<open>Vocabulary of the properties\<close>

text \<open>
  The object \<^verbatim>\<open>sendEmail\<close> hands to \<^verbatim>\<open>resend.emails.send\<close>, and whether the client fails
  on it: the promise rejects, or the answer carries an error (\<^verbatim>\<open>if (error) throw error\<close>).
\<close>

definition message_of :: "env \<Rightarrow> send_args \<Rightarrow> outbound" where
  "message_of e a =
     \<lparr>to = to a, subject = subject a, html = html a,
      from = js_or (process_env (RESEND_FROM e))
               (JString ''Bethesda Lending Library <no-reply@bethesdalendinglibrary.com>'')\<rparr>"

definition send_fails :: "emails_send \<Rightarrow> outbound list \<Rightarrow> outbound \<Rightarrow> bool" where
  "send_fails send log m =
     (case send log m of Rejected x \<Rightarrow> True | Resolved d err \<Rightarrow> err \<noteq> None)"

text \<open>Some message of \<open>ms\<close>, handed over in this order after \<open>log\<close>, makes the client fail.\<close>

fun any_failed :: "emails_send \<Rightarrow> outbound list \<Rightarrow> outbound list \<Rightarrow> bool" where
  "any_failed send log [] = False"
| "any_failed send log (m # ms) = (send_fails send log m \<or> any_failed send (log @ [m]) ms)"

subsection \<open>Concrete configurations, collaborators and bodies\<close>

definition env_admin :: env where
  "env_admin = \<lparr>RESEND_API_KEY = Some ''re_test'', RESEND_FROM = None,
                 ADMIN_EMAIL = Some ''admin@example.org''\<rparr>"

definition env_plain :: env where
  "env_plain = \<lparr>RESEND_API_KEY = Some ''re_test'', RESEND_FROM = None, ADMIN_EMAIL = None\<rparr>"

definition accept_all :: emails_send where
  "accept_all log m = Resolved (Some ''id'') None"

definition reject_to :: "jsvalue \<Rightarrow> emails_send" where
  "reject_to addr log m =
     (if to m = addr then Resolved None (Some ''rejected'') else Resolved (Some ''id'') None)"

text \<open>The object \<^verbatim>\<open>{ "toString": null }\<close>: truthy, and not convertible to a string.\<close>

definition unprintable :: jsvalue where
  "unprintable = JObject [(''toString'', JNull)]"

definition body_on_loan_no_email :: body where
  "body_on_loan_no_email =
     [''itemName'' \<mapsto> JString ''Lego'', ''newStatus'' \<mapsto> JString ''On Loan'']"

definition body_on_loan :: body where
  "body_on_loan =
     [''parentEmail'' \<mapsto> JString ''ann@example.org'', ''itemName'' \<mapsto> JString ''Lego'',
      ''newStatus'' \<mapsto> JString ''On Loan'']"

definition body_no_item :: body where
  "body_no_item =
     [''parentEmail'' \<mapsto> JString ''ann@example.org'', ''newStatus'' \<mapsto> JString ''Returned'']"

definition body_falsy :: body where
  "body_falsy =
     [''parentEmail'' \<mapsto> JString ''ann@example.org'', ''itemName'' \<mapsto> JString [],
      ''newStatus'' \<mapsto> JNumber (Finite False 0 0)]"

definition body_lost :: body where
  "body_lost =
     [''parentEmail'' \<mapsto> JString ''ann@example.org'', ''itemName'' \<mapsto> JString ''Lego'',
      ''newStatus'' \<mapsto> JString ''Lost'']"

definition body_lost_unprintable :: body where
  "body_lost_unprintable =
     [''parentEmail'' \<mapsto> JString ''ann@example.org'', ''itemName'' \<mapsto> unprintable,
      ''newStatus'' \<mapsto> JString ''Lost'']"

definition body_reservation :: body where
  "body_reservation =
     [''parentEmail'' \<mapsto> JString ''ann@example.org'', ''itemName'' \<mapsto> JString ''Lego'',
      ''note'' \<mapsto> JString ''  ring the bell\<newline>twice  '']"

definition body_reservation_unprintable :: body where
  "body_reservation_unprintable =
     [''parentEmail'' \<mapsto> JString ''ann@example.org'', ''parentName'' \<mapsto> unprintable,
      ''itemName'' \<mapsto> JString ''Lego'',
      ''note'' \<mapsto> JString ''  ring the bell\<newline>twice  '']"

definition body_reservation_email_object :: body where
  "body_reservation_email_object =
     [''parentEmail'' \<mapsto> unprintable, ''itemName'' \<mapsto> JString ''Lego'']"

definition body_waitlist :: body where
  "body_waitlist =
     [''parentEmail'' \<mapsto> JString ''ann@example.org'', ''parentName'' \<mapsto> JString ''Ann'',
      ''itemName'' \<mapsto> JString ''Lego'']"

definition body_waitlist_extra :: body where
  "body_waitlist_extra =
     [''parentEmail'' \<mapsto> JString ''ann@example.org'', ''parentName'' \<mapsto> JString ''Ann'',
      ''itemName'' \<mapsto> JString ''Lego'', ''preferredDay'' \<mapsto> JString ''Monday'',
      ''note'' \<mapsto> JString ''hello'']"

definition body_ready :: body where
  "body_ready =
     [''parentEmail'' \<mapsto> JString ''ann@example.org'', ''itemName'' \<mapsto> JString ''Lego'',
      ''newStatus'' \<mapsto> JString ''Ready for Pickup'', ''preferredDay'' \<mapsto> JString ''Monday'']"

definition body_ready_unprintable :: body where
  "body_ready_unprintable =
     [''parentEmail'' \<mapsto> JString ''ann@example.org'', ''itemName'' \<mapsto> unprintable,
      ''newStatus'' \<mapsto> JString ''Ready for Pickup'', ''preferredDay'' \<mapsto> JString ''Monday'']"



definition body_ready_false :: body where
  "body_ready_false =
     [''parentEmail'' \<mapsto> JString ''ann@example.org'', ''itemName'' \<mapsto> JString ''Lego'',
      ''newStatus'' \<mapsto> JString ''Ready for Pickup'', ''preferredDay'' \<mapsto> JBool False]"


section \<open>What \<^verbatim>\<open>sendEmail\<close> does inside a handler\<close>

text \<open>
  No handler looks at the value \<^verbatim>\<open>sendEmail\<close> returns or at the error it throws: the
  continuation depends only on whether the client failed.
\<close>

lemma sendEmail_case:
  "(case sendEmail e send log a of (Inl err, l) \<Rightarrow> F l | (Inr d, l) \<Rightarrow> G l) =
     (if send_fails send log (message_of e a) then F (log @ [message_of e a])
      else G (log @ [message_of e a]))"
  by (simp add: sendEmail_def send_fails_def message_of_def Let_def
           split: resend_response.splits option.splits)

section \<open>Conversions and template literals\<close>

text \<open>
  Only a truthy value can fail to convert: the falsy ones are primitives. So a default
  \<^verbatim>\<open>x || "there"\<close> converts exactly when \<open>x\<close> does.
\<close>

lemma ToString_None_truthy: "ToString v = None \<Longrightarrow> truthy v"
  by (cases v) auto

lemma ToString_js_or: "ToString (js_or v (JString d)) = None \<longleftrightarrow> ToString v = None"
  using ToString_None_truthy by (auto simp: js_or_def)

text \<open>
  \<^verbatim>\<open>Number::toString\<close>, \<^verbatim>\<open>Array.prototype.join\<close> and the conversion of objects on a few
  values: exponent notation starts at \<open>10\<^sup>2\<^sup>1\<close> and below \<open>10\<^sup>-\<^sup>6\<close>.
\<close>

lemma number_examples:
  "ToString (JNumber (Finite False 1 22)) = Some ''1e+21''"
  "ToString (JNumber (Finite False 15 1)) = Some ''1.5''"
  "ToString (JNumber (Finite True 12 2)) = Some ''-12''"
  "ToString (JNumber (Finite False 1 (- 6))) = Some ''1e-7''"
  "ToString (JArray [JNumber (Finite False 1 1), JNull, JString ''a'']) = Some ''1,,a''"
  "ToString (JObject []) = Some ''[object Object]''"
  "ToString (JObject [(''toString'', JNull)]) = None"
  by code_simp+

text \<open>A template literal throws exactly when one of its substitutions threw.\<close>

lemma template_None_iff: "template ps = None \<longleftrightarrow> Sub None \<in> set ps"
proof (induction ps)
  case Nil
  show ?case by simp
next
  case (Cons p ps)
  show ?case
  proof (cases p)
    case (Lit s)
    with Cons show ?thesis by auto
  next
    case (Sub v)
    with Cons show ?thesis by (cases v) auto
  qed
qed

lemma template_append:
  "template (ps @ qs) =
     (case template ps of
        None \<Rightarrow> None
      | Some a \<Rightarrow> map_option (\<lambda>r. a @ r) (template qs))"
proof (induction ps)
  case Nil
  show ?case by (cases "template qs") simp_all
next
  case (Cons p ps)
  show ?case
  proof (cases p)
    case (Lit s)
    with Cons show ?thesis
      by (cases "template ps"; cases "template qs") auto
  next
    case (Sub v)
    with Cons show ?thesis
      by (cases v; cases "template ps"; cases "template qs") auto
  qed
qed

subsection \<open>What a rendered message contains\<close>

text \<open>
  \<open>sublist xs ys\<close>: the string \<open>xs\<close> occurs in \<open>ys\<close>. The lemmas below find an interpolated
  value or a phrase of a template in the rendered string.
\<close>

lemma sublist_refl: "sublist xs xs"
  by (auto simp: sublist_def intro: exI[of _ "[]"])

lemma sublist_skip: "sublist xs ys \<Longrightarrow> sublist xs (zs @ ys)"
  by (auto simp: sublist_def) (metis append.assoc)

lemma sublist_into: "sublist xs ys \<Longrightarrow> sublist xs (ys @ zs)"
  by (auto simp: sublist_def) (metis append.assoc)

lemma sublist_trans: "sublist xs ys \<Longrightarrow> sublist ys zs \<Longrightarrow> sublist xs zs"
  using sublist_skip sublist_into by (fastforce simp: sublist_def)

lemma sublist_straddle: "suffix xs1 ys \<Longrightarrow> prefix xs2 zs \<Longrightarrow> sublist (xs1 @ xs2) (ys @ zs)"
  by (auto simp: sublist_def suffix_def prefix_def) blast

lemmas sublist_find = sublist_append_rightI sublist_refl sublist_skip sublist_into

text \<open>The value of a run of consecutive parts occurs in the value of the template.\<close>

lemma template_parts:
  assumes "template ps = Some s" and "sublist qs ps"
  shows "\<exists>t. template qs = Some t \<and> sublist t s"
proof -
  from assms(2) obtain as bs where ps: "ps = as @ qs @ bs"
    by (auto simp: sublist_def)
  with assms(1) obtain a t b where
    "template as = Some a" "template qs = Some t" "template bs = Some b" "s = a @ t @ b"
    by (auto simp: template_append split: option.splits)
  then show ?thesis by auto
qed

lemma template_Lit:
  assumes "template ps = Some s" and "Lit x \<in> set ps"
  shows "sublist x s"
proof -
  from assms(2) have "sublist [Lit x] ps"
    by (auto simp: sublist_def in_set_conv_decomp)
  from template_parts[OF assms(1) this] show ?thesis by simp
qed

lemma template_Sub:
  assumes "template ps = Some s" and "Sub (Some x) \<in> set ps"
  shows "sublist x s"
proof -
  from assms(2) have "sublist [Sub (Some x)] ps"
    by (auto simp: sublist_def in_set_conv_decomp)
  from template_parts[OF assms(1) this] show ?thesis by simp
qed


subsection \<open>When a template of a route throws\<close>

lemma for_child_None:
  "(if truthy cn then template [Lit ''for '', Sub (ToString cn)] else Some []) = None \<longleftrightarrow>
   ToString cn = None"
  using ToString_None_truthy[of cn] by (cases "ToString cn") auto

lemma reservation_pickup_line_None:
  "reservation_pickup_line pd = None \<longleftrightarrow> ToString pd = None"
  using ToString_None_truthy[of pd]
  by (cases "ToString pd") (auto simp: reservation_pickup_line_def)

lemma note_paragraph_None:
  "(if truthy note
    then template
           [Lit ''<p><strong>Your note:</strong><br />'',
            Sub (map_option (\<lambda>s. trim (replace_newlines s)) (ToString note)),
            Lit ''</p>'']
    else Some []) = None \<longleftrightarrow> ToString note = None"
  using ToString_None_truthy[of "note"] by (cases "ToString note") auto

lemma day_paragraph_None:
  "(if truthy pd
    then template
           [Lit ''<p>You requested pickup on <strong>'', Sub (ToString pd),
            Lit ''</strong>.</p>'']
    else Some []) = None \<longleftrightarrow> ToString pd = None"
  using ToString_None_truthy[of pd] by (cases "ToString pd") auto

lemma None_eq: "None = v \<longleftrightarrow> v = None"
  by auto

lemmas template_None_simps =
  list.set insert_iff empty_iff part.inject part.distinct option.distinct simp_thms None_eq
  ToString_js_or

lemma reservation_content_None:
  "reservation_content pn item cn pl note = None \<longleftrightarrow>
   ToString pn = None \<or> ToString item = None \<or> ToString cn = None \<or> ToString note = None"
  unfolding reservation_content_def template_None_iff
  by (simp only: template_None_simps for_child_None note_paragraph_None)

lemma reservation_admin_html_None:
  "reservation_admin_html pn pe cn item pd = None \<longleftrightarrow>
   ToString pn = None \<or> ToString pe = None \<or> ToString cn = None \<or> ToString item = None \<or>
   ToString pd = None"
  unfolding reservation_admin_html_def template_None_iff
  by (simp only: template_None_simps)

lemma waitlist_content_None:
  "waitlist_content pn item cn = None \<longleftrightarrow>
   ToString pn = None \<or> ToString item = None \<or> ToString cn = None"
  unfolding waitlist_content_def template_None_iff
  by (simp only: template_None_simps for_child_None)

lemma waitlist_admin_html_None:
  "waitlist_admin_html pn pe cn item = None \<longleftrightarrow>
   ToString pn = None \<or> ToString pe = None \<or> ToString cn = None \<or> ToString item = None"
  unfolding waitlist_admin_html_def template_None_iff
  by (simp only: template_None_simps)

lemma ready_content_None:
  "ready_content pn item cn pd = None \<longleftrightarrow>
   ToString pn = None \<or> ToString item = None \<or> ToString cn = None \<or> ToString pd = None"
  unfolding ready_content_def template_None_iff
  by (simp only: template_None_simps for_child_None day_paragraph_None)


lemma subjects:
  \<open>reservation_subject item =
     map_option (\<lambda>s. ''Reservation received for "'' @ s @ ''"'') (ToString item)\<close>
  \<open>reservation_admin_subject item =
     map_option (\<lambda>s. ''New reservation: "'' @ s @ ''"'') (ToString item)\<close>
  \<open>waitlist_subject item =
     map_option (\<lambda>s. ''Waitlist request for "'' @ s @ ''" received'') (ToString item)\<close>
  \<open>waitlist_admin_subject item =
     map_option (\<lambda>s. ''New waitlist request: "'' @ s @ ''"'') (ToString item)\<close>
  \<open>update_subject item = map_option (\<lambda>s. ''Update for "'' @ s @ ''"'') (ToString item)\<close>
  \<open>ready_subject item =
     map_option (\<lambda>s. [CHR 0xF0, CHR 0x9F, CHR 0x8E, CHR 0x89] @ '' "'' @ s @
                      ''" is ready for pickup'') (ToString item)\<close>
  by (cases "ToString item";
      simp add: reservation_subject_def reservation_admin_subject_def waitlist_subject_def
                waitlist_admin_subject_def update_subject_def ready_subject_def)+

subsection \<open>Phrases and values in the wrapper and in the templates\<close>

lemma render_title:
  \<open>sublist (''<h2 style="color:#003366;">'' @ title a @ ''</h2>'') (renderBrandedEmail a)\<close>
proof -
  have 1: \<open>suffix ''<h2 style="color:#003366;">'' ''          <h2 style="color:#003366;">''\<close>
    by code_simp
  have 2: "prefix (title a @ ''</h2>'') (title a @ ''</h2>\<newline>'' @ rest)" for rest
    by simp
  show ?thesis
    unfolding renderBrandedEmail_def
    by (fast intro: sublist_skip sublist_straddle[OF 1 2])
qed

lemma render_content: "sublist (content a) (renderBrandedEmail a)"
  unfolding renderBrandedEmail_def by (fast intro: sublist_find)

lemma render_pickup:
  "showPickupInfo a = Some True \<Longrightarrow> sublist PICKUP_INFO_HTML (renderBrandedEmail a)"
  unfolding renderBrandedEmail_def
  by (simp only: option.case if_True) (fast intro: sublist_find)

lemma in_content:
  "sublist x (content a) \<Longrightarrow> sublist x (renderBrandedEmail a)"
  using render_content sublist_trans by blast

lemma ready_content_day:
  assumes "ready_content pn item cn pd = Some c" and "truthy pd" and "ToString pd = Some d"
  shows "sublist d c"
proof -
  have "sublist (''<p>You requested pickup on <strong>'' @ d @ ''</strong>.</p>'') c"
    by (rule template_Sub[OF assms(1)[unfolded ready_content_def]]) (simp add: assms(2,3))
  moreover have "sublist d (''<p>You requested pickup on <strong>'' @ d @ ''</strong>.</p>'')"
    by (fast intro: sublist_find)
  ultimately show ?thesis using sublist_trans by blast
qed

lemma ready_content_note:
  assumes "ready_content pn item cn pd = Some c"
  shows "sublist ''<h4>Note: You will be required to show this confirmationemail with you when you come.</h4>'' c"
proof -
  have "sublist ''<h4>Note: You will be required to show this confirmationemail with you when you come.</h4>''
     ''          <h4>Note: You will be required to show this confirmationemail with you when you come.</h4>\<newline>''"
    by code_simp
  moreover have "sublist ''          <h4>Note: You will be required to show this confirmationemail with you when you come.</h4>\<newline>'' c"
    by (rule template_Lit[OF assms[unfolded ready_content_def]]) simp
  ultimately show ?thesis by (rule sublist_trans)
qed








lemma reservation_content_note:
  assumes "reservation_content pn item cn pl note = Some c"
      and "truthy note" and "ToString note = Some s"
  shows "sublist (''<p><strong>Your note:</strong><br />'' @ trim (replace_newlines s) @ ''</p>'') c"
  by (rule template_Sub[OF assms(1)[unfolded reservation_content_def]]) (simp add: assms(2,3))

lemma reservation_content_item:
  assumes "reservation_content pn item cn pl note = Some c" and "ToString item = Some i"
  shows "sublist i c"
  by (rule template_Sub[OF assms(1)[unfolded reservation_content_def]]) (simp add: assms(2))

lemma waitlist_content_item:
  assumes "waitlist_content pn item cn = Some c" and "ToString item = Some i"
  shows "sublist i c"
  by (rule template_Sub[OF assms(1)[unfolded waitlist_content_def]]) (simp add: assms(2))

lemma reservation_admin_html_item:
  assumes "reservation_admin_html pn pe cn item pd = Some h" and "ToString item = Some i"
  shows "sublist i h"
  by (rule template_Sub[OF assms(1)[unfolded reservation_admin_html_def]]) (simp add: assms(2))

lemma reservation_admin_html_email:
  assumes "reservation_admin_html pn pe cn item pd = Some h" and "ToString pe = Some a"
  shows "sublist a h"
  by (rule template_Sub[OF assms(1)[unfolded reservation_admin_html_def]]) (simp add: assms(2))

lemma waitlist_admin_html_item:
  assumes "waitlist_admin_html pn pe cn item = Some h" and "ToString item = Some i"
  shows "sublist i h"
  by (rule template_Sub[OF assms(1)[unfolded waitlist_admin_html_def]]) (simp add: assms(2))

lemma waitlist_admin_html_email:
  assumes "waitlist_admin_html pn pe cn item = Some h" and "ToString pe = Some a"
  shows "sublist a h"
  by (rule template_Sub[OF assms(1)[unfolded waitlist_admin_html_def]]) (simp add: assms(2))

text \<open>
  The html of a ready-for-pickup message for the item \<^verbatim>\<open>Lego\<close>, with no names and with
  \<^verbatim>\<open>preferredDay: false\<close>: the word \<^verbatim>\<open>false\<close> is not in it.
\<close>

lemma ready_false_html:
  "\<not> sublist ''false''
       (renderBrandedEmail
          \<lparr>title = ''Your Toy is Ready for Pickup'',
           content = the (ready_content JUndefined (JString ''Lego'') JUndefined (JBool False)),
           showPickupInfo = Some True\<rparr>)"
  by (simp add: renderBrandedEmail_def PICKUP_INFO_HTML_def BETHESDA_LOGO_def ready_content_def
        js_or_def sublist_Cons_right)

section \<open>The routes, case by case\<close>

text \<open>
  A status update that passes the validation and is not suppressed: the templates of its
  branch are evaluated, and when none throws, one message is handed to the sender. When the
  subject template throws (\<^verbatim>\<open>itemName\<close> does not convert), nothing is handed over.
\<close>

lemma status_updated_sends:
  assumes "truthy (get_field b ''parentEmail'')" and "truthy (get_field b ''itemName'')"
      and "truthy (get_field b ''newStatus'')"
      and "get_field b ''newStatus'' \<noteq> JString ''On Loan''"
      and "ToString (get_field b ''itemName'') = Some i"
  shows \<open>status_updated e send log (Some b) =
     (case (if get_field b ''newStatus'' = JString ''Ready for Pickup'' then
              map_option
                (\<lambda>c. ([CHR 0xF0, CHR 0x9F, CHR 0x8E, CHR 0x89] @ '' "'' @ i @
                        ''" is ready for pickup'',
                      renderBrandedEmail
                        \<lparr>title = ''Your Toy is Ready for Pickup'', content = c,
                         showPickupInfo = Some True\<rparr>))
                (ready_content (get_field b ''parentName'') (get_field b ''itemName'')
                   (get_field b ''childName'') (get_field b ''preferredDay''))
            else if get_field b ''newStatus'' = JString ''Returned'' then
              map_option
                (\<lambda>c. (''Update for "'' @ i @ ''"'',
                      renderBrandedEmail
                        \<lparr>title = ''Thank You'', content = c, showPickupInfo = None\<rparr>))
                (returned_content (get_field b ''parentName'') (get_field b ''itemName''))
            else Some (''Update for "'' @ i @ ''"'', []))
      of
        None \<Rightarrow> (\<lparr>status = 500, body = [(''error'', JString ''Failed to send email'')]\<rparr>, log)
      | Some (s, h) \<Rightarrow>
          (if send_fails send log (message_of e \<lparr>to = get_field b ''parentEmail'',
                                                 subject = s, html = h\<rparr>)
           then \<lparr>status = 500, body = [(''error'', JString ''Failed to send email'')]\<rparr>
           else \<lparr>status = 200, body = [(''ok'', JBool True)]\<rparr>,
           log @ [message_of e \<lparr>to = get_field b ''parentEmail'', subject = s, html = h\<rparr>]))\<close>
  using assms
  by (cases "ready_content (get_field b ''parentName'') (get_field b ''itemName'')
               (get_field b ''childName'') (get_field b ''preferredDay'')";
      cases "returned_content (get_field b ''parentName'') (get_field b ''itemName'')")
     (simp_all add: status_updated_def Let_def sendEmail_case subjects)

lemma status_updated_item_throws:
  assumes "truthy (get_field b ''parentEmail'')" and "truthy (get_field b ''itemName'')"
      and "truthy (get_field b ''newStatus'')"
      and "get_field b ''newStatus'' \<noteq> JString ''On Loan''"
      and "ToString (get_field b ''itemName'') = None"
  shows "status_updated e send log (Some b) =
           (\<lparr>status = 500, body = [(''error'', JString ''Failed to send email'')]\<rparr>, log)"
  using assms by (simp add: status_updated_def Let_def subjects)

text \<open>
  A reservation or a waitlist entry that passes the validation. The recipient message \<open>m1\<close>
  is built and handed over first. The templates of the admin copy are evaluated only after
  \<open>m1\<close> was delivered and only when \<^verbatim>\<open>ADMIN_EMAIL\<close> is truthy; when they throw, the answer is
  500 and \<open>m1\<close> stays sent.
\<close>

lemma reservation_created_sends:
  assumes "truthy (get_field b ''parentEmail'')" and "truthy (get_field b ''itemName'')"
      and "ToString (get_field b ''itemName'') = Some i"
      and "reservation_pickup_line (get_field b ''preferredDay'') = Some pl"
      and "reservation_content (get_field b ''parentName'') (get_field b ''itemName'')
             (get_field b ''childName'') pl (get_field b ''note'') = Some c"
      and "m1 = message_of e
                  \<lparr>to = get_field b ''parentEmail'',
                   subject = ''Reservation received for '' @ [CHR 0x22] @ i @ [CHR 0x22],
                   html = renderBrandedEmail
                            \<lparr>title = ''Reservation Received'', content = c,
                             showPickupInfo = Some False\<rparr>\<rparr>"
  shows "reservation_created e send log (Some b) =
     (if send_fails send log m1 then
        (\<lparr>status = 500, body = [(''error'', JString ''Failed to send email'')]\<rparr>, log @ [m1])
      else if truthy (process_env (ADMIN_EMAIL e)) then
        (case reservation_admin_html (get_field b ''parentName'') (get_field b ''parentEmail'')
                (get_field b ''childName'') (get_field b ''itemName'')
                (get_field b ''preferredDay'')
         of
           None \<Rightarrow>
             (\<lparr>status = 500, body = [(''error'', JString ''Failed to send email'')]\<rparr>,
              log @ [m1])
         | Some h2 \<Rightarrow>
             (if send_fails send (log @ [m1])
                   (message_of e
                      \<lparr>to = process_env (ADMIN_EMAIL e),
                       subject = ''New reservation: '' @ [CHR 0x22] @ i @ [CHR 0x22],
                       html = h2\<rparr>)
              then \<lparr>status = 500, body = [(''error'', JString ''Failed to send email'')]\<rparr>
              else \<lparr>status = 200, body = [(''ok'', JBool True)]\<rparr>,
              log @ [m1,
                     message_of e
                       \<lparr>to = process_env (ADMIN_EMAIL e),
                        subject = ''New reservation: '' @ [CHR 0x22] @ i @ [CHR 0x22],
                        html = h2\<rparr>]))
      else (\<lparr>status = 200, body = [(''ok'', JBool True)]\<rparr>, log @ [m1]))"
  using assms
  by (cases "reservation_admin_html (get_field b ''parentName'') (get_field b ''parentEmail'')
                (get_field b ''childName'') (get_field b ''itemName'')
                (get_field b ''preferredDay'')")
     (simp_all add: reservation_created_def Let_def sendEmail_case subjects)

lemma reservation_created_throws:
  assumes "truthy (get_field b ''parentEmail'')" and "truthy (get_field b ''itemName'')"
      and "ToString (get_field b ''itemName'') = None \<or>
           ToString (get_field b ''parentName'') = None \<or>
           ToString (get_field b ''childName'') = None \<or>
           ToString (get_field b ''preferredDay'') = None \<or>
           ToString (get_field b ''note'') = None"
  shows "reservation_created e send log (Some b) =
           (\<lparr>status = 500, body = [(''error'', JString ''Failed to send email'')]\<rparr>, log)"
proof (cases "reservation_pickup_line (get_field b ''preferredDay'')")
  case None
  with assms(1,2) show ?thesis
    by (simp add: reservation_created_def Let_def)
next
  case pl: (Some pl)
  then have pd: "ToString (get_field b ''preferredDay'') \<noteq> None"
    using reservation_pickup_line_None[of "get_field b ''preferredDay''"] by simp
  show ?thesis
  proof (cases "ToString (get_field b ''itemName'')")
    case None
    with assms(1,2) pl show ?thesis
      by (simp add: reservation_created_def Let_def subjects)
  next
    case (Some i)
    with assms(3) pd have "reservation_content (get_field b ''parentName'')
        (get_field b ''itemName'') (get_field b ''childName'') pl (get_field b ''note'') = None"
      by (simp only: reservation_content_None) (elim disjE; simp)
    with assms(1,2) pl Some show ?thesis
      by (simp add: reservation_created_def Let_def subjects)
  qed
qed

lemma waitlist_created_sends:
  assumes "truthy (get_field b ''parentEmail'')" and "truthy (get_field b ''itemName'')"
      and "ToString (get_field b ''itemName'') = Some i"
      and "waitlist_content (get_field b ''parentName'') (get_field b ''itemName'')
             (get_field b ''childName'') = Some c"
      and "m1 = message_of e
                  \<lparr>to = get_field b ''parentEmail'',
                   subject = ''Waitlist request for '' @ [CHR 0x22] @ i @ CHR 0x22 # '' received'',
                   html = renderBrandedEmail
                            \<lparr>title = ''Waitlist Confirmation'', content = c,
                             showPickupInfo = None\<rparr>\<rparr>"
  shows "waitlist_created e send log (Some b) =
     (if send_fails send log m1 then
        (\<lparr>status = 500, body = [(''error'', JString ''Failed to send email'')]\<rparr>, log @ [m1])
      else if truthy (process_env (ADMIN_EMAIL e)) then
        (case waitlist_admin_html (get_field b ''parentName'') (get_field b ''parentEmail'')
                (get_field b ''childName'') (get_field b ''itemName'')
         of
           None \<Rightarrow>
             (\<lparr>status = 500, body = [(''error'', JString ''Failed to send email'')]\<rparr>,
              log @ [m1])
         | Some h2 \<Rightarrow>
             (if send_fails send (log @ [m1])
                   (message_of e
                      \<lparr>to = process_env (ADMIN_EMAIL e),
                       subject = ''New waitlist request: '' @ [CHR 0x22] @ i @ [CHR 0x22],
                       html = h2\<rparr>)
              then \<lparr>status = 500, body = [(''error'', JString ''Failed to send email'')]\<rparr>
              else \<lparr>status = 200, body = [(''ok'', JBool True)]\<rparr>,
              log @ [m1,
                     message_of e
                       \<lparr>to = process_env (ADMIN_EMAIL e),
                        subject = ''New waitlist request: '' @ [CHR 0x22] @ i @ [CHR 0x22],
                        html = h2\<rparr>]))
      else (\<lparr>status = 200, body = [(''ok'', JBool True)]\<rparr>, log @ [m1]))"
  using assms
  by (cases "waitlist_admin_html (get_field b ''parentName'') (get_field b ''parentEmail'')
                (get_field b ''childName'') (get_field b ''itemName'')")
     (simp_all add: waitlist_created_def Let_def sendEmail_case subjects)

lemma waitlist_created_throws:
  assumes "truthy (get_field b ''parentEmail'')" and "truthy (get_field b ''itemName'')"
      and "ToString (get_field b ''itemName'') = None \<or>
           ToString (get_field b ''parentName'') = None \<or>
           ToString (get_field b ''childName'') = None"
  shows "waitlist_created e send log (Some b) =
           (\<lparr>status = 500, body = [(''error'', JString ''Failed to send email'')]\<rparr>, log)"
proof (cases "ToString (get_field b ''itemName'')")
  case None
  with assms(1,2) show ?thesis
    by (simp add: waitlist_created_def Let_def subjects)
next
  case (Some i)
  with assms(3) have "waitlist_content (get_field b ''parentName'')
        (get_field b ''itemName'') (get_field b ''childName'') = None"
    by (simp only: waitlist_content_None) (elim disjE; simp)
  with assms(1,2) Some show ?thesis
    by (simp add: waitlist_created_def Let_def subjects)
qed

lemma reservation_created_calls:
  assumes "truthy (get_field b ''parentEmail'')" and "truthy (get_field b ''itemName'')"
      and "ToString (get_field b ''itemName'') = Some i"
      and "ToString (get_field b ''parentEmail'') = Some a"
      and "ToString (get_field b ''parentName'') \<noteq> None"
      and "ToString (get_field b ''childName'') \<noteq> None"
      and "ToString (get_field b ''preferredDay'') \<noteq> None"
      and "ToString (get_field b ''note'') \<noteq> None"
  shows "\<exists>m1 m2.
     to m1 = get_field b ''parentEmail'' \<and>
     sublist i (subject m1) \<and>
     sublist i (html m1) \<and>
     to m2 = process_env (ADMIN_EMAIL e) \<and>
     sublist i (subject m2) \<and>
     sublist i (html m2) \<and>
     sublist a (html m2) \<and>
     (truthy (process_env (ADMIN_EMAIL e)) \<and> \<not> send_fails send log m1 \<longrightarrow>
        snd (reservation_created e send log (Some b)) = log @ [m1, m2]) \<and>
     (truthy (process_env (ADMIN_EMAIL e)) \<and> send_fails send log m1 \<longrightarrow>
        snd (reservation_created e send log (Some b)) = log @ [m1]) \<and>
     (\<not> truthy (process_env (ADMIN_EMAIL e)) \<longrightarrow>
        snd (reservation_created e send log (Some b)) = log @ [m1])"
proof -
  from assms(7) have "reservation_pickup_line (get_field b ''preferredDay'') \<noteq> None"
    by (simp add: reservation_pickup_line_None)
  then obtain pl where pl: "reservation_pickup_line (get_field b ''preferredDay'') = Some pl"
    by blast
  from assms(3,5,6,8) have "reservation_content (get_field b ''parentName'')
      (get_field b ''itemName'') (get_field b ''childName'') pl (get_field b ''note'') \<noteq> None"
    by (simp add: reservation_content_None)
  then obtain c where c: "reservation_content (get_field b ''parentName'')
      (get_field b ''itemName'') (get_field b ''childName'') pl (get_field b ''note'') = Some c"
    by blast
  from assms(3-7) have "reservation_admin_html (get_field b ''parentName'')
      (get_field b ''parentEmail'') (get_field b ''childName'') (get_field b ''itemName'')
      (get_field b ''preferredDay'') \<noteq> None"
    by (simp add: reservation_admin_html_None)
  then obtain h2 where h2: "reservation_admin_html (get_field b ''parentName'')
      (get_field b ''parentEmail'') (get_field b ''childName'') (get_field b ''itemName'')
      (get_field b ''preferredDay'') = Some h2"
    by blast
  let ?a = "\<lparr>title = ''Reservation Received'', content = c, showPickupInfo = Some False\<rparr>"
  let ?s1 = "''Reservation received for '' @ [CHR 0x22] @ i @ [CHR 0x22]"
  let ?s2 = "''New reservation: '' @ [CHR 0x22] @ i @ [CHR 0x22]"
  let ?m1 = "message_of e \<lparr>to = get_field b ''parentEmail'', subject = ?s1,
                             html = renderBrandedEmail ?a\<rparr>"
  let ?m2 = "message_of e \<lparr>to = process_env (ADMIN_EMAIL e), subject = ?s2, html = h2\<rparr>"
  have run: "snd (reservation_created e send log (Some b)) =
               log @ (if send_fails send log ?m1 then [?m1]
                      else if truthy (process_env (ADMIN_EMAIL e)) then [?m1, ?m2] else [?m1])"
    by (simp add: reservation_created_sends[OF assms(1,2,3) pl c refl] h2)
  have f: "to ?m1 = get_field b ''parentEmail''" "subject ?m1 = ?s1"
    "html ?m1 = renderBrandedEmail ?a" "to ?m2 = process_env (ADMIN_EMAIL e)"
    "subject ?m2 = ?s2" "html ?m2 = h2"
    by (simp_all add: message_of_def)
  have 1: "sublist i ?s1" and 2: "sublist i ?s2"
    by (fast intro: sublist_find)+
  have 3: "sublist i (renderBrandedEmail ?a)"
  proof (rule in_content)
    show "sublist i (content ?a)"
      using reservation_content_item[OF c assms(3)] by simp
  qed
  have 4: "sublist i h2"
    by (rule reservation_admin_html_item[OF h2 assms(3)])
  have 5: "sublist a h2"
    by (rule reservation_admin_html_email[OF h2 assms(4)])
  show ?thesis
    apply (rule exI[of _ ?m1], rule exI[of _ ?m2])
    apply (simp only: f run)
    apply (intro conjI impI 1 2 3 4 5 refl)
      apply simp_all
    done
qed

lemma waitlist_created_calls:
  assumes "truthy (get_field b ''parentEmail'')" and "truthy (get_field b ''itemName'')"
      and "ToString (get_field b ''itemName'') = Some i"
      and "ToString (get_field b ''parentEmail'') = Some a"
      and "ToString (get_field b ''parentName'') \<noteq> None"
      and "ToString (get_field b ''childName'') \<noteq> None"
  shows "\<exists>m1 m2.
     to m1 = get_field b ''parentEmail'' \<and>
     sublist i (subject m1) \<and>
     sublist i (html m1) \<and>
     to m2 = process_env (ADMIN_EMAIL e) \<and>
     sublist i (subject m2) \<and>
     sublist i (html m2) \<and>
     sublist a (html m2) \<and>
     (truthy (process_env (ADMIN_EMAIL e)) \<and> \<not> send_fails send log m1 \<longrightarrow>
        snd (waitlist_created e send log (Some b)) = log @ [m1, m2]) \<and>
     (truthy (process_env (ADMIN_EMAIL e)) \<and> send_fails send log m1 \<longrightarrow>
        snd (waitlist_created e send log (Some b)) = log @ [m1]) \<and>
     (\<not> truthy (process_env (ADMIN_EMAIL e)) \<longrightarrow>
        snd (waitlist_created e send log (Some b)) = log @ [m1])"
proof -
  from assms(3,5,6) have "waitlist_content (get_field b ''parentName'')
      (get_field b ''itemName'') (get_field b ''childName'') \<noteq> None"
    by (simp add: waitlist_content_None)
  then obtain c where c: "waitlist_content (get_field b ''parentName'')
      (get_field b ''itemName'') (get_field b ''childName'') = Some c"
    by blast
  from assms(3-6) have "waitlist_admin_html (get_field b ''parentName'')
      (get_field b ''parentEmail'') (get_field b ''childName'') (get_field b ''itemName'') \<noteq> None"
    by (simp add: waitlist_admin_html_None)
  then obtain h2 where h2: "waitlist_admin_html (get_field b ''parentName'')
      (get_field b ''parentEmail'') (get_field b ''childName'') (get_field b ''itemName'') = Some h2"
    by blast
  let ?a = "\<lparr>title = ''Waitlist Confirmation'', content = c, showPickupInfo = None\<rparr>"
  let ?s1 = "''Waitlist request for '' @ [CHR 0x22] @ i @ CHR 0x22 # '' received''"
  let ?s2 = "''New waitlist request: '' @ [CHR 0x22] @ i @ [CHR 0x22]"
  let ?m1 = "message_of e \<lparr>to = get_field b ''parentEmail'', subject = ?s1,
                             html = renderBrandedEmail ?a\<rparr>"
  let ?m2 = "message_of e \<lparr>to = process_env (ADMIN_EMAIL e), subject = ?s2, html = h2\<rparr>"
  have run: "snd (waitlist_created e send log (Some b)) =
               log @ (if send_fails send log ?m1 then [?m1]
                      else if truthy (process_env (ADMIN_EMAIL e)) then [?m1, ?m2] else [?m1])"
    by (simp add: waitlist_created_sends[OF assms(1,2,3) c refl] h2)
  have f: "to ?m1 = get_field b ''parentEmail''" "subject ?m1 = ?s1"
    "html ?m1 = renderBrandedEmail ?a" "to ?m2 = process_env (ADMIN_EMAIL e)"
    "subject ?m2 = ?s2" "html ?m2 = h2"
    by (simp_all add: message_of_def)
  have 1: "sublist i ?s1" and 2: "sublist i ?s2"
    by (fast intro: sublist_find)+
  have 3: "sublist i (renderBrandedEmail ?a)"
  proof (rule in_content)
    show "sublist i (content ?a)"
      using waitlist_content_item[OF c assms(3)] by simp
  qed
  have 4: "sublist i h2"
    by (rule waitlist_admin_html_item[OF h2 assms(3)])
  have 5: "sublist a h2"
    by (rule waitlist_admin_html_email[OF h2 assms(4)])
  show ?thesis
    apply (rule exI[of _ ?m1], rule exI[of _ ?m2])
    apply (simp only: f run)
    apply (intro conjI impI 1 2 3 4 5 refl)
      apply simp_all
    done
qed

lemma reservation_created_admin_throws:
  assumes "truthy (get_field b ''parentEmail'')" and "truthy (get_field b ''itemName'')"
      and "ToString (get_field b ''parentEmail'') = None"
      and "ToString (get_field b ''itemName'') \<noteq> None"
      and "ToString (get_field b ''parentName'') \<noteq> None"
      and "ToString (get_field b ''childName'') \<noteq> None"
      and "ToString (get_field b ''preferredDay'') \<noteq> None"
      and "ToString (get_field b ''note'') \<noteq> None"
  shows "\<exists>m1. to m1 = get_field b ''parentEmail'' \<and>
           snd (reservation_created e send log (Some b)) = log @ [m1] \<and>
           (truthy (process_env (ADMIN_EMAIL e)) \<or> send_fails send log m1 \<longrightarrow>
              fst (reservation_created e send log (Some b)) =
                \<lparr>status = 500, body = [(''error'', JString ''Failed to send email'')]\<rparr>)"
proof -
  from assms(4) obtain i where i: "ToString (get_field b ''itemName'') = Some i"
    by blast
  from assms(7) have "reservation_pickup_line (get_field b ''preferredDay'') \<noteq> None"
    by (simp add: reservation_pickup_line_None)
  then obtain pl where pl: "reservation_pickup_line (get_field b ''preferredDay'') = Some pl"
    by blast
  from i assms(5,6,8) have "reservation_content (get_field b ''parentName'')
      (get_field b ''itemName'') (get_field b ''childName'') pl (get_field b ''note'') \<noteq> None"
    by (simp add: reservation_content_None)
  then obtain c where c: "reservation_content (get_field b ''parentName'')
      (get_field b ''itemName'') (get_field b ''childName'') pl (get_field b ''note'') = Some c"
    by blast
  from assms(3) have h2: "reservation_admin_html (get_field b ''parentName'')
      (get_field b ''parentEmail'') (get_field b ''childName'') (get_field b ''itemName'')
      (get_field b ''preferredDay'') = None"
    by (simp add: reservation_admin_html_None)
  let ?m1 = "message_of e
               \<lparr>to = get_field b ''parentEmail'',
                subject = ''Reservation received for '' @ [CHR 0x22] @ i @ [CHR 0x22],
                html = renderBrandedEmail
                         \<lparr>title = ''Reservation Received'', content = c,
                          showPickupInfo = Some False\<rparr>\<rparr>"
  have "to ?m1 = get_field b ''parentEmail''"
    by (simp add: message_of_def)
  moreover have "snd (reservation_created e send log (Some b)) = log @ [?m1]"
    by (simp add: reservation_created_sends[OF assms(1,2) i pl c refl] h2)
  moreover have "truthy (process_env (ADMIN_EMAIL e)) \<or> send_fails send log ?m1 \<longrightarrow>
              fst (reservation_created e send log (Some b)) =
                \<lparr>status = 500, body = [(''error'', JString ''Failed to send email'')]\<rparr>"
    by (simp add: reservation_created_sends[OF assms(1,2) i pl c refl] h2)
  ultimately show ?thesis
    by (intro exI[of _ ?m1] conjI)
qed

lemma waitlist_created_admin_throws:
  assumes "truthy (get_field b ''parentEmail'')" and "truthy (get_field b ''itemName'')"
      and "ToString (get_field b ''parentEmail'') = None"
      and "ToString (get_field b ''itemName'') \<noteq> None"
      and "ToString (get_field b ''parentName'') \<noteq> None"
      and "ToString (get_field b ''childName'') \<noteq> None"
  shows "\<exists>m1. to m1 = get_field b ''parentEmail'' \<and>
           snd (waitlist_created e send log (Some b)) = log @ [m1] \<and>
           (truthy (process_env (ADMIN_EMAIL e)) \<or> send_fails send log m1 \<longrightarrow>
              fst (waitlist_created e send log (Some b)) =
                \<lparr>status = 500, body = [(''error'', JString ''Failed to send email'')]\<rparr>)"
proof -
  from assms(4) obtain i where i: "ToString (get_field b ''itemName'') = Some i"
    by blast
  from i assms(5,6) have "waitlist_content (get_field b ''parentName'')
      (get_field b ''itemName'') (get_field b ''childName'') \<noteq> None"
    by (simp add: waitlist_content_None)
  then obtain c where c: "waitlist_content (get_field b ''parentName'')
      (get_field b ''itemName'') (get_field b ''childName'') = Some c"
    by blast
  from assms(3) have h2: "waitlist_admin_html (get_field b ''parentName'')
      (get_field b ''parentEmail'') (get_field b ''childName'') (get_field b ''itemName'') = None"
    by (simp add: waitlist_admin_html_None)
  let ?m1 = "message_of e
               \<lparr>to = get_field b ''parentEmail'',
                subject = ''Waitlist request for '' @ [CHR 0x22] @ i @ CHR 0x22 # '' received'',
                html = renderBrandedEmail
                         \<lparr>title = ''Waitlist Confirmation'', content = c,
                          showPickupInfo = None\<rparr>\<rparr>"
  have "to ?m1 = get_field b ''parentEmail''"
    by (simp add: message_of_def)
  moreover have "snd (waitlist_created e send log (Some b)) = log @ [?m1]"
    by (simp add: waitlist_created_sends[OF assms(1,2) i c refl] h2)
  moreover have "truthy (process_env (ADMIN_EMAIL e)) \<or> send_fails send log ?m1 \<longrightarrow>
              fst (waitlist_created e send log (Some b)) =
                \<lparr>status = 500, body = [(''error'', JString ''Failed to send email'')]\<rparr>"
    by (simp add: waitlist_created_sends[OF assms(1,2) i c refl] h2)
  ultimately show ?thesis
    by (intro exI[of _ ?m1] conjI)
qed

section \<open>The suppression rule\<close>

text \<open>
  C1, as the code has it. A request to \<^verbatim>\<open>/email/status-updated\<close> whose \<^verbatim>\<open>newStatus\<close> is
  \<^verbatim>\<open>"On Loan"\<close> never reaches the sender. The validation of the required fields comes first:
  the answer is 200 \<^verbatim>\<open>{ skipped: true }\<close> when \<^verbatim>\<open>parentEmail\<close> and \<^verbatim>\<open>itemName\<close> are truthy, and
  400 \<^verbatim>\<open>{ error: "Missing required fields" }\<close> otherwise.
\<close>

theorem on_loan_skipped:
  assumes "get_field b ''newStatus'' = JString ''On Loan''"
  shows "snd (status_updated e send log (Some b)) = log \<and>
         fst (status_updated e send log (Some b)) =
           (if truthy (get_field b ''parentEmail'') \<and> truthy (get_field b ''itemName'')
            then \<lparr>status = 200, body = [(''skipped'', JBool True)]\<rparr>
            else \<lparr>status = 400, body = [(''error'', JString ''Missing required fields'')]\<rparr>)"
  using assms by (simp add: status_updated_def Let_def)

theorem on_loan_skipped_witness:
  "get_field body_on_loan ''newStatus'' = JString ''On Loan'' \<and>
   snd (status_updated env_admin (reject_to (JString ''ann@example.org'')) []
          (Some body_on_loan)) = [] \<and>
   fst (status_updated env_admin (reject_to (JString ''ann@example.org'')) []
          (Some body_on_loan)) =
     \<lparr>status = 200, body = [(''skipped'', JBool True)]\<rparr>"
proof -
  have h: "get_field body_on_loan ''newStatus'' = JString ''On Loan''"
    by (simp add: body_on_loan_def get_field_def)
  have v: "truthy (get_field body_on_loan ''parentEmail'') \<and>
           truthy (get_field body_on_loan ''itemName'')"
    by (simp add: body_on_loan_def get_field_def)
  from on_loan_skipped[OF h, of env_admin "reject_to (JString ''ann@example.org'')" "[]"] h v
  show ?thesis by simp
qed

text \<open>
  C1 as it is written says 200 \<^verbatim>\<open>{ skipped: true }\<close> whatever the other fields are. A body with
  \<^verbatim>\<open>newStatus = "On Loan"\<close> and no \<^verbatim>\<open>parentEmail\<close> is answered 400.
\<close>

theorem on_loan_counterexample:
  "get_field body_on_loan_no_email ''newStatus'' = JString ''On Loan'' \<and>
   fst (status_updated env_plain accept_all [] (Some body_on_loan_no_email)) =
     \<lparr>status = 400, body = [(''error'', JString ''Missing required fields'')]\<rparr> \<and>
   fst (status_updated env_plain accept_all [] (Some body_on_loan_no_email)) \<noteq>
     \<lparr>status = 200, body = [(''skipped'', JBool True)]\<rparr>"
  by (simp add: status_updated_def body_on_loan_no_email_def get_field_def)

section \<open>Validation\<close>

lemma reservation_created_invalid:
  "\<not> truthy (get_field b ''parentEmail'') \<or> \<not> truthy (get_field b ''itemName'') \<Longrightarrow>
   reservation_created e send log (Some b) =
     (\<lparr>status = 400, body = [(''error'', JString ''Missing required fields'')]\<rparr>, log)"
  by (simp add: reservation_created_def Let_def)

lemma waitlist_created_invalid:
  "\<not> truthy (get_field b ''parentEmail'') \<or> \<not> truthy (get_field b ''itemName'') \<Longrightarrow>
   waitlist_created e send log (Some b) =
     (\<lparr>status = 400, body = [(''error'', JString ''Missing required fields'')]\<rparr>, log)"
  by (simp add: waitlist_created_def Let_def)

lemma status_updated_invalid:
  "\<not> truthy (get_field b ''parentEmail'') \<or> \<not> truthy (get_field b ''itemName'') \<or>
   \<not> truthy (get_field b ''newStatus'') \<Longrightarrow>
   status_updated e send log (Some b) =
     (\<lparr>status = 400, body = [(''error'', JString ''Missing required fields'')]\<rparr>, log)"
  by (simp add: status_updated_def Let_def)

text \<open>
  C2, as the code has it. When \<^verbatim>\<open>req.body\<close> is an object that lacks a required field
  (\<^verbatim>\<open>parentEmail\<close> or \<^verbatim>\<open>itemName\<close> on the three routes, \<^verbatim>\<open>newStatus\<close> as well on
  \<^verbatim>\<open>/email/status-updated\<close>), the answer is 400 \<^verbatim>\<open>{ error: "Missing required fields" }\<close>. When
  \<^verbatim>\<open>req.body\<close> is \<^verbatim>\<open>undefined\<close>, the destructuring throws inside \<^verbatim>\<open>try\<close> and the answer is 500
  \<^verbatim>\<open>{ error: "Failed to send email" }\<close>. Nothing is handed to the sender either way.
\<close>

theorem missing_field_400:
  "(b ''parentEmail'' = None \<or> b ''itemName'' = None \<longrightarrow>
      reservation_created e send log (Some b) =
        (\<lparr>status = 400, body = [(''error'', JString ''Missing required fields'')]\<rparr>, log) \<and>
      waitlist_created e send log (Some b) =
        (\<lparr>status = 400, body = [(''error'', JString ''Missing required fields'')]\<rparr>, log)) \<and>
   (b ''parentEmail'' = None \<or> b ''itemName'' = None \<or> b ''newStatus'' = None \<longrightarrow>
      status_updated e send log (Some b) =
        (\<lparr>status = 400, body = [(''error'', JString ''Missing required fields'')]\<rparr>, log)) \<and>
   reservation_created e send log None =
     (\<lparr>status = 500, body = [(''error'', JString ''Failed to send email'')]\<rparr>, log) \<and>
   waitlist_created e send log None =
     (\<lparr>status = 500, body = [(''error'', JString ''Failed to send email'')]\<rparr>, log) \<and>
   status_updated e send log None =
     (\<lparr>status = 500, body = [(''error'', JString ''Failed to send email'')]\<rparr>, log)"
proof -
  have g: "\<not> truthy (get_field b k)" if "b k = None" for k
    using that by (simp add: get_field_def)
  have 1: "reservation_created e send log (Some b) =
        (\<lparr>status = 400, body = [(''error'', JString ''Missing required fields'')]\<rparr>, log) \<and>
      waitlist_created e send log (Some b) =
        (\<lparr>status = 400, body = [(''error'', JString ''Missing required fields'')]\<rparr>, log)"
    if "b ''parentEmail'' = None \<or> b ''itemName'' = None"
  proof -
    from that g have
      "\<not> truthy (get_field b ''parentEmail'') \<or> \<not> truthy (get_field b ''itemName'')"
      by blast
    then show ?thesis
      by (simp only: reservation_created_invalid waitlist_created_invalid simp_thms)
  qed
  have 2: "status_updated e send log (Some b) =
        (\<lparr>status = 400, body = [(''error'', JString ''Missing required fields'')]\<rparr>, log)"
    if "b ''parentEmail'' = None \<or> b ''itemName'' = None \<or> b ''newStatus'' = None"
  proof -
    from that g have
      "\<not> truthy (get_field b ''parentEmail'') \<or> \<not> truthy (get_field b ''itemName'') \<or>
       \<not> truthy (get_field b ''newStatus'')"
      by blast
    then show ?thesis by (rule status_updated_invalid)
  qed
  have 3: "reservation_created e send log None =
     (\<lparr>status = 500, body = [(''error'', JString ''Failed to send email'')]\<rparr>, log)"
    "waitlist_created e send log None =
     (\<lparr>status = 500, body = [(''error'', JString ''Failed to send email'')]\<rparr>, log)"
    "status_updated e send log None =
     (\<lparr>status = 500, body = [(''error'', JString ''Failed to send email'')]\<rparr>, log)"
    by (simp_all add: reservation_created_def waitlist_created_def status_updated_def)
  show ?thesis
  proof (intro conjI impI)
    assume a: "b ''parentEmail'' = None \<or> b ''itemName'' = None"
    from 1[OF a]
    show "reservation_created e send log (Some b) =
        (\<lparr>status = 400, body = [(''error'', JString ''Missing required fields'')]\<rparr>, log)"
      and "waitlist_created e send log (Some b) =
        (\<lparr>status = 400, body = [(''error'', JString ''Missing required fields'')]\<rparr>, log)"
      by (simp_all only:)
  next
    assume a: "b ''parentEmail'' = None \<or> b ''itemName'' = None \<or> b ''newStatus'' = None"
    from 2[OF a]
    show "status_updated e send log (Some b) =
        (\<lparr>status = 400, body = [(''error'', JString ''Missing required fields'')]\<rparr>, log)" .
  qed (rule 3)+
qed

theorem missing_field_400_witness:
  "body_no_item ''itemName'' = None \<and>
   reservation_created env_admin accept_all [] (Some body_no_item) =
     (\<lparr>status = 400, body = [(''error'', JString ''Missing required fields'')]\<rparr>, []) \<and>
   waitlist_created env_admin accept_all [] (Some body_no_item) =
     (\<lparr>status = 400, body = [(''error'', JString ''Missing required fields'')]\<rparr>, []) \<and>
   status_updated env_admin accept_all [] (Some body_no_item) =
     (\<lparr>status = 400, body = [(''error'', JString ''Missing required fields'')]\<rparr>, [])"
proof -
  have h: "body_no_item ''itemName'' = None"
    by (simp add: body_no_item_def)
  from missing_field_400[of body_no_item env_admin accept_all "[]"] h
  show ?thesis by simp
qed

text \<open>
  C2 as it is written says 400 for every request in which a required field is missing. A
  request without a parsed JSON body has none of the fields; \<^verbatim>\<open>express.json()\<close> of Express 5
  leaves its \<^verbatim>\<open>req.body\<close> undefined, and the three routes answer 500.
\<close>

theorem no_body_counterexample:
  "reservation_created env_admin accept_all [] None =
     (\<lparr>status = 500, body = [(''error'', JString ''Failed to send email'')]\<rparr>, []) \<and>
   waitlist_created env_admin accept_all [] None =
     (\<lparr>status = 500, body = [(''error'', JString ''Failed to send email'')]\<rparr>, []) \<and>
   status_updated env_admin accept_all [] None =
     (\<lparr>status = 500, body = [(''error'', JString ''Failed to send email'')]\<rparr>, []) \<and>
   fst (reservation_created env_admin accept_all [] None) \<noteq>
     \<lparr>status = 400, body = [(''error'', JString ''Missing required fields'')]\<rparr>"
  by (simp add: reservation_created_def waitlist_created_def status_updated_def)

text \<open>
  C9. The validation tests truthiness, not presence: a required field that is present with a
  falsy value (\<^verbatim>\<open>null\<close>, \<^verbatim>\<open>false\<close>, \<^verbatim>\<open>0\<close> or \<^verbatim>\<open>-0\<close>, or the empty string) is answered as the
  same body without that field is: 400 \<^verbatim>\<open>{ error: "Missing required fields" }\<close>, and nothing
  is handed to the sender. This holds for \<^verbatim>\<open>parentEmail\<close> and \<^verbatim>\<open>itemName\<close> on the three
  routes, and for \<^verbatim>\<open>newStatus\<close> as well on \<^verbatim>\<open>/email/status-updated\<close>.
\<close>

theorem falsy_field_400:
  assumes "b k = Some v"
      and "v = JNull \<or> v = JBool False \<or> v = JNumber (Finite neg 0 n) \<or> v = JString []"
  shows "(k = ''parentEmail'' \<or> k = ''itemName'' \<longrightarrow>
            reservation_created e send log (Some b) =
              (\<lparr>status = 400, body = [(''error'', JString ''Missing required fields'')]\<rparr>, log) \<and>
            waitlist_created e send log (Some b) =
              (\<lparr>status = 400, body = [(''error'', JString ''Missing required fields'')]\<rparr>, log) \<and>
            reservation_created e send log (Some b) =
              reservation_created e send log (Some (b(k := None))) \<and>
            waitlist_created e send log (Some b) =
              waitlist_created e send log (Some (b(k := None)))) \<and>
         (k = ''parentEmail'' \<or> k = ''itemName'' \<or> k = ''newStatus'' \<longrightarrow>
            status_updated e send log (Some b) =
              (\<lparr>status = 400, body = [(''error'', JString ''Missing required fields'')]\<rparr>, log) \<and>
            status_updated e send log (Some b) =
              status_updated e send log (Some (b(k := None))))"
proof -
  from assms have f: "\<not> truthy (get_field b k)"
    by (auto simp: get_field_def)
  have g: "\<not> truthy (get_field (b(k := None)) k)"
    by (simp add: get_field_def)
  have two: "reservation_created e send log (Some b') =
               (\<lparr>status = 400, body = [(''error'', JString ''Missing required fields'')]\<rparr>, log) \<and>
             waitlist_created e send log (Some b') =
               (\<lparr>status = 400, body = [(''error'', JString ''Missing required fields'')]\<rparr>, log)"
    if "\<not> truthy (get_field b' k)" and "k = ''parentEmail'' \<or> k = ''itemName''" for b'
  proof -
    from that have
      "\<not> truthy (get_field b' ''parentEmail'') \<or> \<not> truthy (get_field b' ''itemName'')"
      by blast
    then show ?thesis
      by (simp only: reservation_created_invalid waitlist_created_invalid simp_thms)
  qed
  have three: "status_updated e send log (Some b') =
               (\<lparr>status = 400, body = [(''error'', JString ''Missing required fields'')]\<rparr>, log)"
    if "\<not> truthy (get_field b' k)"
      and "k = ''parentEmail'' \<or> k = ''itemName'' \<or> k = ''newStatus''" for b'
  proof -
    from that have
      "\<not> truthy (get_field b' ''parentEmail'') \<or> \<not> truthy (get_field b' ''itemName'') \<or>
       \<not> truthy (get_field b' ''newStatus'')"
      by blast
    then show ?thesis
      by (rule status_updated_invalid)
  qed
  show ?thesis
  proof (intro conjI impI)
    assume k: "k = ''parentEmail'' \<or> k = ''itemName''"
    from two[OF f k] two[OF g k]
    show "reservation_created e send log (Some b) =
            (\<lparr>status = 400, body = [(''error'', JString ''Missing required fields'')]\<rparr>, log)"
      and "waitlist_created e send log (Some b) =
            (\<lparr>status = 400, body = [(''error'', JString ''Missing required fields'')]\<rparr>, log)"
      and "reservation_created e send log (Some b) =
             reservation_created e send log (Some (b(k := None)))"
      and "waitlist_created e send log (Some b) =
             waitlist_created e send log (Some (b(k := None)))"
      by (simp_all only:)
  next
    assume k: "k = ''parentEmail'' \<or> k = ''itemName'' \<or> k = ''newStatus''"
    from three[OF f k] three[OF g k]
    show "status_updated e send log (Some b) =
            (\<lparr>status = 400, body = [(''error'', JString ''Missing required fields'')]\<rparr>, log)"
      and "status_updated e send log (Some b) =
             status_updated e send log (Some (b(k := None)))"
      by (simp_all only:)
  qed
qed

theorem falsy_field_400_witness:
  "body_falsy ''newStatus'' = Some (JNumber (Finite False 0 0)) \<and>
   body_falsy ''itemName'' = Some (JString []) \<and>
   reservation_created env_admin accept_all [] (Some body_falsy) =
     (\<lparr>status = 400, body = [(''error'', JString ''Missing required fields'')]\<rparr>, []) \<and>
   waitlist_created env_admin accept_all [] (Some body_falsy) =
     (\<lparr>status = 400, body = [(''error'', JString ''Missing required fields'')]\<rparr>, []) \<and>
   status_updated env_admin accept_all [] (Some body_falsy) =
     (\<lparr>status = 400, body = [(''error'', JString ''Missing required fields'')]\<rparr>, []) \<and>
   status_updated env_admin accept_all [] (Some body_falsy) =
     status_updated env_admin accept_all [] (Some (body_falsy(''newStatus'' := None)))"
proof -
  have h: "body_falsy ''itemName'' = Some (JString [])"
    and n: "body_falsy ''newStatus'' = Some (JNumber (Finite False 0 0))"
    by (simp_all add: body_falsy_def)
  have vh: "JString [] = JNull \<or> JString [] = JBool False \<or>
            JString [] = JNumber (Finite False 0 0) \<or> JString [] = JString []"
    and vn: "JNumber (Finite False 0 0) = JNull \<or> JNumber (Finite False 0 0) = JBool False \<or>
             JNumber (Finite False 0 0) = JNumber (Finite False 0 0) \<or>
             JNumber (Finite False 0 0) = JString []"
    by simp_all
  have kh: "''itemName'' = ''parentEmail'' \<or> ''itemName'' = ''itemName''"
    and kn: "''newStatus'' = ''parentEmail'' \<or> ''newStatus'' = ''itemName'' \<or>
             ''newStatus'' = ''newStatus''"
    by simp_all
  note two = falsy_field_400[where b = body_falsy and k = "''itemName''" and v = "JString []"
                 and neg = False and n = 0
                 and e = env_admin and send = accept_all and log = "[]",
               OF h vh, THEN conjunct1, rule_format, OF kh]
  note three = falsy_field_400[where b = body_falsy and k = "''newStatus''"
                   and v = "JNumber (Finite False 0 0)" and neg = False and n = 0
                   and e = env_admin and send = accept_all and log = "[]",
                 OF n vn, THEN conjunct2, rule_format, OF kn]
  from h n two[THEN conjunct1] two[THEN conjunct2, THEN conjunct1]
    three[THEN conjunct1] three[THEN conjunct2]
  show ?thesis by (intro conjI)
qed

section \<open>Delivery failure\<close>

lemma reservation_created_failure:
  assumes "snd (reservation_created e send log req) = log @ ms" and "any_failed send log ms"
  shows "fst (reservation_created e send log req) =
           \<lparr>status = 500, body = [(''error'', JString ''Failed to send email'')]\<rparr>"
proof (cases req)
  case None
  then show ?thesis by (simp add: reservation_created_def)
next
  case (Some b)
  show ?thesis
  proof (cases "truthy (get_field b ''parentEmail'') \<and> truthy (get_field b ''itemName'')")
    case False
    with assms Some show ?thesis
      by (auto simp: reservation_created_def Let_def)
  next
    case True
    with assms Some show ?thesis
      by (simp add: reservation_created_def Let_def sendEmail_case
               split: if_splits option.splits) auto
  qed
qed

lemma waitlist_created_failure:
  assumes "snd (waitlist_created e send log req) = log @ ms" and "any_failed send log ms"
  shows "fst (waitlist_created e send log req) =
           \<lparr>status = 500, body = [(''error'', JString ''Failed to send email'')]\<rparr>"
proof (cases req)
  case None
  then show ?thesis by (simp add: waitlist_created_def)
next
  case (Some b)
  show ?thesis
  proof (cases "truthy (get_field b ''parentEmail'') \<and> truthy (get_field b ''itemName'')")
    case False
    with assms Some show ?thesis
      by (auto simp: waitlist_created_def Let_def)
  next
    case True
    with assms Some show ?thesis
      by (simp add: waitlist_created_def Let_def sendEmail_case
               split: if_splits option.splits) auto
  qed
qed

lemma status_updated_failure:
  assumes "snd (status_updated e send log req) = log @ ms" and "any_failed send log ms"
  shows "fst (status_updated e send log req) =
           \<lparr>status = 500, body = [(''error'', JString ''Failed to send email'')]\<rparr>"
proof (cases req)
  case None
  then show ?thesis by (simp add: status_updated_def)
next
  case (Some b)
  show ?thesis
  proof (cases "truthy (get_field b ''parentEmail'') \<and> truthy (get_field b ''itemName'') \<and>
                truthy (get_field b ''newStatus'') \<and>
                get_field b ''newStatus'' \<noteq> JString ''On Loan''")
    case False
    with assms Some show ?thesis
      by (auto simp: status_updated_def Let_def split: if_splits)
  next
    case True
    with assms Some show ?thesis
      by (simp add: status_updated_def Let_def sendEmail_case
               split: if_splits option.splits) auto
  qed
qed

text \<open>
  C3. On each route, when the client fails on a message the handler handed to it in this
  request (\<open>ms\<close> are those messages), the answer is 500 \<^verbatim>\<open>{ error: "Failed to send email" }\<close>.
  The witness is a reservation whose recipient message is accepted and whose admin copy is
  refused: two messages were handed over, and the answer is 500.
\<close>

theorem send_failure_500:
  "(snd (reservation_created e send log req) = log @ ms \<and> any_failed send log ms \<longrightarrow>
      fst (reservation_created e send log req) =
        \<lparr>status = 500, body = [(''error'', JString ''Failed to send email'')]\<rparr>) \<and>
   (snd (waitlist_created e send log req) = log @ ms \<and> any_failed send log ms \<longrightarrow>
      fst (waitlist_created e send log req) =
        \<lparr>status = 500, body = [(''error'', JString ''Failed to send email'')]\<rparr>) \<and>
   (snd (status_updated e send log req) = log @ ms \<and> any_failed send log ms \<longrightarrow>
      fst (status_updated e send log req) =
        \<lparr>status = 500, body = [(''error'', JString ''Failed to send email'')]\<rparr>)"
  by (intro conjI impI; elim conjE)
     (erule (1) reservation_created_failure waitlist_created_failure status_updated_failure)+

theorem send_failure_500_witness:
  "\<exists>m1 m2.
     snd (reservation_created env_admin (reject_to (JString ''admin@example.org'')) []
            (Some body_reservation)) = [] @ [m1, m2] \<and>
     to m1 = JString ''ann@example.org'' \<and>
     to m2 = JString ''admin@example.org'' \<and>
     \<not> send_fails (reject_to (JString ''admin@example.org'')) [] m1 \<and>
     send_fails (reject_to (JString ''admin@example.org'')) [m1] m2 \<and>
     any_failed (reject_to (JString ''admin@example.org'')) [] [m1, m2] \<and>
     fst (reservation_created env_admin (reject_to (JString ''admin@example.org'')) []
            (Some body_reservation)) =
       \<lparr>status = 500, body = [(''error'', JString ''Failed to send email'')]\<rparr>"
proof -
  let ?send = "reject_to (JString ''admin@example.org'')"
  have h: "truthy (get_field body_reservation ''parentEmail'')"
    "truthy (get_field body_reservation ''itemName'')"
    "ToString (get_field body_reservation ''itemName'') = Some ''Lego''"
    "ToString (get_field body_reservation ''parentEmail'') = Some ''ann@example.org''"
    "ToString (get_field body_reservation ''parentName'') \<noteq> None"
    "ToString (get_field body_reservation ''childName'') \<noteq> None"
    "ToString (get_field body_reservation ''preferredDay'') \<noteq> None"
    "ToString (get_field body_reservation ''note'') \<noteq> None"
    by (simp_all add: body_reservation_def get_field_def)
  have v: "get_field body_reservation ''parentEmail'' = JString ''ann@example.org''"
    "process_env (ADMIN_EMAIL env_admin) = JString ''admin@example.org''"
    by (simp_all add: body_reservation_def get_field_def env_admin_def process_env_def)
  from reservation_created_calls[OF h, of env_admin ?send "[]"] obtain m1 m2 where r:
    "to m1 = get_field body_reservation ''parentEmail''"
    "to m2 = process_env (ADMIN_EMAIL env_admin)"
    "truthy (process_env (ADMIN_EMAIL env_admin)) \<and> \<not> send_fails ?send [] m1 \<longrightarrow>
       snd (reservation_created env_admin ?send [] (Some body_reservation)) = [] @ [m1, m2]"
    by (elim exE conjE) (rule that; assumption)
  from r(1,2) v have to: "to m1 = JString ''ann@example.org''" "to m2 = JString ''admin@example.org''"
    by simp_all
  from to have f: "\<not> send_fails ?send [] m1" "send_fails ?send [m1] m2"
    by (simp_all add: send_fails_def reject_to_def)
  from r(3) f(1) v(2)
  have run: "snd (reservation_created env_admin ?send [] (Some body_reservation)) = [] @ [m1, m2]"
    by simp
  from f have a: "any_failed ?send [] [m1, m2]"
    by simp
  from send_failure_500[of env_admin ?send "[]" "Some body_reservation" "[m1, m2]"] run a
  have r: "fst (reservation_created env_admin ?send [] (Some body_reservation)) =
          \<lparr>status = 500, body = [(''error'', JString ''Failed to send email'')]\<rparr>"
    by blast
  show ?thesis
    by (rule exI[of _ m1], rule exI[of _ m2]) (simp only: run to f a r simp_thms)
qed

section \<open>Status updates\<close>

text \<open>
  C4, as the code has it. A status update with truthy required fields and a \<^verbatim>\<open>newStatus\<close>
  other than \<^verbatim>\<open>"On Loan"\<close>, \<^verbatim>\<open>"Ready for Pickup"\<close> and \<^verbatim>\<open>"Returned"\<close>. When \<^verbatim>\<open>itemName\<close> converts
  to a string, exactly one message is handed to the sender: to \<^verbatim>\<open>parentEmail\<close>, with the
  generic subject \<^verbatim>\<open>Update for "<itemName>"\<close> and the empty string as html; the answer is 200
  \<^verbatim>\<open>{ ok: true }\<close> when that message is delivered and 500 when it is not. When \<^verbatim>\<open>itemName\<close>
  does not convert, the subject template throws: the answer is 500 and nothing is handed over.
\<close>

theorem other_status_empty_html:
  assumes "truthy (get_field b ''parentEmail'')" and "truthy (get_field b ''itemName'')"
      and "truthy (get_field b ''newStatus'')"
      and "get_field b ''newStatus'' \<noteq> JString ''On Loan''"
      and "get_field b ''newStatus'' \<noteq> JString ''Ready for Pickup''"
      and "get_field b ''newStatus'' \<noteq> JString ''Returned''"
  shows \<open>(\<forall>item. ToString (get_field b ''itemName'') = Some item \<longrightarrow>
            (\<exists>m. snd (status_updated e send log (Some b)) = log @ [m] \<and>
                 to m = get_field b ''parentEmail'' \<and>
                 subject m = ''Update for "'' @ item @ ''"'' \<and>
                 html m = [] \<and>
                 fst (status_updated e send log (Some b)) =
                   (if send_fails send log m
                    then \<lparr>status = 500, body = [(''error'', JString ''Failed to send email'')]\<rparr>
                    else \<lparr>status = 200, body = [(''ok'', JBool True)]\<rparr>))) \<and>
         (ToString (get_field b ''itemName'') = None \<longrightarrow>
            status_updated e send log (Some b) =
              (\<lparr>status = 500, body = [(''error'', JString ''Failed to send email'')]\<rparr>, log))\<close>
  using assms
  by (simp add: status_updated_def Let_def sendEmail_case message_of_def subjects)

theorem other_status_empty_html_witness:
  \<open>truthy (get_field body_lost ''parentEmail'') \<and> truthy (get_field body_lost ''itemName'') \<and>
   truthy (get_field body_lost ''newStatus'') \<and>
   get_field body_lost ''newStatus'' \<noteq> JString ''On Loan'' \<and>
   get_field body_lost ''newStatus'' \<noteq> JString ''Ready for Pickup'' \<and>
   get_field body_lost ''newStatus'' \<noteq> JString ''Returned'' \<and>
   ToString (get_field body_lost ''itemName'') = Some ''Lego'' \<and>
   (\<exists>m. snd (status_updated env_plain accept_all [] (Some body_lost)) = [m] \<and>
        to m = JString ''ann@example.org'' \<and>
        subject m = ''Update for "Lego"'' \<and>
        html m = [] \<and>
        fst (status_updated env_plain accept_all [] (Some body_lost)) =
          \<lparr>status = 200, body = [(''ok'', JBool True)]\<rparr>) \<and>
   truthy (get_field body_lost_unprintable ''parentEmail'') \<and>
   truthy (get_field body_lost_unprintable ''itemName'') \<and>
   get_field body_lost_unprintable ''newStatus'' = JString ''Lost'' \<and>
   ToString (get_field body_lost_unprintable ''itemName'') = None \<and>
   status_updated env_plain accept_all [] (Some body_lost_unprintable) =
     (\<lparr>status = 500, body = [(''error'', JString ''Failed to send email'')]\<rparr>, [])\<close>
proof -
  have h: "truthy (get_field body_lost ''parentEmail'')" "truthy (get_field body_lost ''itemName'')"
    "truthy (get_field body_lost ''newStatus'')"
    "get_field body_lost ''newStatus'' \<noteq> JString ''On Loan''"
    "get_field body_lost ''newStatus'' \<noteq> JString ''Ready for Pickup''"
    "get_field body_lost ''newStatus'' \<noteq> JString ''Returned''"
    by (simp_all add: body_lost_def get_field_def)
  have v: "get_field body_lost ''parentEmail'' = JString ''ann@example.org''"
    "ToString (get_field body_lost ''itemName'') = Some ''Lego''"
    by (simp_all add: body_lost_def get_field_def)
  have a: "\<not> send_fails accept_all l m" for l m
    by (simp add: send_fails_def accept_all_def)
  have h': "truthy (get_field body_lost_unprintable ''parentEmail'')"
    "truthy (get_field body_lost_unprintable ''itemName'')"
    "truthy (get_field body_lost_unprintable ''newStatus'')"
    "get_field body_lost_unprintable ''newStatus'' \<noteq> JString ''On Loan''"
    "get_field body_lost_unprintable ''newStatus'' \<noteq> JString ''Ready for Pickup''"
    "get_field body_lost_unprintable ''newStatus'' \<noteq> JString ''Returned''"
    by (simp_all add: body_lost_unprintable_def unprintable_def get_field_def)
  have v': "get_field body_lost_unprintable ''newStatus'' = JString ''Lost''"
    "ToString (get_field body_lost_unprintable ''itemName'') = None"
    by (simp_all add: body_lost_unprintable_def unprintable_def get_field_def)
  from other_status_empty_html[OF h, of env_plain accept_all "[]"] h
  have first: \<open>truthy (get_field body_lost ''parentEmail'') \<and> truthy (get_field body_lost ''itemName'') \<and>
   truthy (get_field body_lost ''newStatus'') \<and>
   get_field body_lost ''newStatus'' \<noteq> JString ''On Loan'' \<and>
   get_field body_lost ''newStatus'' \<noteq> JString ''Ready for Pickup'' \<and>
   get_field body_lost ''newStatus'' \<noteq> JString ''Returned'' \<and>
   ToString (get_field body_lost ''itemName'') = Some ''Lego'' \<and>
   (\<exists>m. snd (status_updated env_plain accept_all [] (Some body_lost)) = [m] \<and>
        to m = JString ''ann@example.org'' \<and>
        subject m = ''Update for "Lego"'' \<and>
        html m = [] \<and>
        fst (status_updated env_plain accept_all [] (Some body_lost)) =
          \<lparr>status = 200, body = [(''ok'', JBool True)]\<rparr>)\<close>
    by (simp add: v a)
  have second: "status_updated env_plain accept_all [] (Some body_lost_unprintable) =
     (\<lparr>status = 500, body = [(''error'', JString ''Failed to send email'')]\<rparr>, [])"
    by (rule other_status_empty_html[OF h', of env_plain accept_all "[]", THEN conjunct2,
               rule_format, OF v'(2)])
  from first h'(1,2) v' second show ?thesis
    by (intro conjI) simp_all
qed

text \<open>
  C4 as it is written says one email and 200 \<^verbatim>\<open>{ ok: true }\<close> for every such request. With a
  sender that refuses the message the answer is 500; with the object \<^verbatim>\<open>{ "toString": null }\<close>
  as \<^verbatim>\<open>itemName\<close> the answer is 500 and no message is handed over.
\<close>

theorem other_status_counterexample:
  \<open>truthy (get_field body_lost ''parentEmail'') \<and> truthy (get_field body_lost ''itemName'') \<and>
   truthy (get_field body_lost ''newStatus'') \<and>
   get_field body_lost ''newStatus'' \<noteq> JString ''On Loan'' \<and>
   get_field body_lost ''newStatus'' \<noteq> JString ''Ready for Pickup'' \<and>
   get_field body_lost ''newStatus'' \<noteq> JString ''Returned'' \<and>
   fst (status_updated env_plain (reject_to (JString ''ann@example.org'')) [] (Some body_lost)) =
     \<lparr>status = 500, body = [(''error'', JString ''Failed to send email'')]\<rparr> \<and>
   fst (status_updated env_plain (reject_to (JString ''ann@example.org'')) [] (Some body_lost)) \<noteq>
     \<lparr>status = 200, body = [(''ok'', JBool True)]\<rparr> \<and>
   truthy (get_field body_lost_unprintable ''parentEmail'') \<and>
   truthy (get_field body_lost_unprintable ''itemName'') \<and>
   get_field body_lost_unprintable ''newStatus'' = JString ''Lost'' \<and>
   status_updated env_plain accept_all [] (Some body_lost_unprintable) =
     (\<lparr>status = 500, body = [(''error'', JString ''Failed to send email'')]\<rparr>, [])\<close>
  by (simp add: status_updated_def Let_def sendEmail_case message_of_def subjects
                send_fails_def reject_to_def body_lost_def body_lost_unprintable_def
                unprintable_def get_field_def)

text \<open>
  C6, as the code has it. A status update to \<^verbatim>\<open>"Ready for Pickup"\<close> with truthy \<^verbatim>\<open>parentEmail\<close>
  and \<^verbatim>\<open>itemName\<close>. When \<^verbatim>\<open>itemName\<close>, \<^verbatim>\<open>parentName\<close>, \<^verbatim>\<open>childName\<close> and \<^verbatim>\<open>preferredDay\<close>
  convert to strings, one message is handed to the sender. Its subject is the party-popper
  emoji followed by the quoted item name and \<^verbatim>\<open>is ready for pickup\<close>. Its html is the branded
  wrapper with the title \<^verbatim>\<open>Your Toy is Ready for Pickup\<close> and \<^verbatim>\<open>showPickupInfo: true\<close>, so it
  contains the pickup location and hours block; it contains the preferred day when that field
  is a string or any other truthy value, and the line that asks to show the confirmation
  email. When one of the four fields does not convert, a template throws: the answer is 500
  and nothing is handed over.
\<close>

theorem ready_for_pickup_email:
  assumes "truthy (get_field b ''parentEmail'')" and "truthy (get_field b ''itemName'')"
      and "get_field b ''newStatus'' = JString ''Ready for Pickup''"
  shows \<open>(\<forall>i. ToString (get_field b ''itemName'') = Some i \<and>
              ToString (get_field b ''parentName'') \<noteq> None \<and>
              ToString (get_field b ''childName'') \<noteq> None \<and>
              ToString (get_field b ''preferredDay'') \<noteq> None \<longrightarrow>
           (\<exists>m c. snd (status_updated e send log (Some b)) = log @ [m] \<and>
              to m = get_field b ''parentEmail'' \<and>
              subject m = [CHR 0xF0, CHR 0x9F, CHR 0x8E, CHR 0x89] @ '' "'' @ i @
                          ''" is ready for pickup'' \<and>
              html m = renderBrandedEmail
                         \<lparr>title = ''Your Toy is Ready for Pickup'', content = c,
                          showPickupInfo = Some True\<rparr> \<and>
              sublist ''<h2 style="color:#003366;">Your Toy is Ready for Pickup</h2>'' (html m) \<and>
              sublist PICKUP_INFO_HTML (html m) \<and>
              (\<forall>d. ToString (get_field b ''preferredDay'') = Some d \<and>
                   ((\<exists>s. get_field b ''preferredDay'' = JString s) \<or>
                    truthy (get_field b ''preferredDay''))
                   \<longrightarrow> sublist d (html m)) \<and>
              sublist ''<h4>Note: You will be required to show this confirmationemail with you when you come.</h4>''
                (html m))) \<and>
         (ToString (get_field b ''itemName'') = None \<or>
          ToString (get_field b ''parentName'') = None \<or>
          ToString (get_field b ''childName'') = None \<or>
          ToString (get_field b ''preferredDay'') = None \<longrightarrow>
            status_updated e send log (Some b) =
              (\<lparr>status = 500, body = [(''error'', JString ''Failed to send email'')]\<rparr>, log))\<close>
proof (intro conjI allI impI)
  fix i
  assume conv: "ToString (get_field b ''itemName'') = Some i \<and>
              ToString (get_field b ''parentName'') \<noteq> None \<and>
              ToString (get_field b ''childName'') \<noteq> None \<and>
              ToString (get_field b ''preferredDay'') \<noteq> None"
  let ?content = "ready_content (get_field b ''parentName'') (get_field b ''itemName'')
                    (get_field b ''childName'') (get_field b ''preferredDay'')"
  from conv have "?content \<noteq> None"
    by (simp add: ready_content_None)
  then obtain c where c: "?content = Some c"
    by blast
  let ?a = "\<lparr>title = ''Your Toy is Ready for Pickup'', content = c, showPickupInfo = Some True\<rparr>"
  let ?m = "message_of e
              \<lparr>to = get_field b ''parentEmail'',
               subject = [CHR 0xF0, CHR 0x9F, CHR 0x8E, CHR 0x89] @ [CHR 0x20, CHR 0x22] @ i @
                         CHR 0x22 # '' is ready for pickup'',
               html = renderBrandedEmail ?a\<rparr>"
  from conv have i: "ToString (get_field b ''itemName'') = Some i"
    by blast
  have run: "snd (status_updated e send log (Some b)) = log @ [?m]"
    using assms by (simp add: status_updated_sends[OF _ _ _ _ i] c)
  have h: "html ?m = renderBrandedEmail ?a" and t: "to ?m = get_field b ''parentEmail''"
    by (simp_all add: message_of_def)
  have 1: \<open>sublist ''<h2 style="color:#003366;">Your Toy is Ready for Pickup</h2>''
             (renderBrandedEmail ?a)\<close>
    using render_title[of ?a] by simp
  have 2: "sublist PICKUP_INFO_HTML (renderBrandedEmail ?a)"
    by (rule render_pickup) simp
  have 3: "sublist d (renderBrandedEmail ?a)"
    if "ToString (get_field b ''preferredDay'') = Some d \<and>
        ((\<exists>s. get_field b ''preferredDay'' = JString s) \<or> truthy (get_field b ''preferredDay''))"
    for d
  proof (cases "truthy (get_field b ''preferredDay'')")
    case True
    with that ready_content_day[OF c] have "sublist d (content ?a)"
      by simp
    then show ?thesis by (rule in_content)
  next
    case False
    with that have "d = []" by auto
    then show ?thesis by simp
  qed
  have 4: "sublist ''<h4>Note: You will be required to show this confirmationemail with you when you come.</h4>''
             (renderBrandedEmail ?a)"
  proof (rule in_content)
    show "sublist ''<h4>Note: You will be required to show this confirmationemail with you when you come.</h4>''
            (content ?a)"
      using ready_content_note[OF c] by simp
  qed
  show \<open>\<exists>m c. snd (status_updated e send log (Some b)) = log @ [m] \<and>
              to m = get_field b ''parentEmail'' \<and>
              subject m = [CHR 0xF0, CHR 0x9F, CHR 0x8E, CHR 0x89] @ '' "'' @ i @
                          ''" is ready for pickup'' \<and>
              html m = renderBrandedEmail
                         \<lparr>title = ''Your Toy is Ready for Pickup'', content = c,
                          showPickupInfo = Some True\<rparr> \<and>
              sublist ''<h2 style="color:#003366;">Your Toy is Ready for Pickup</h2>'' (html m) \<and>
              sublist PICKUP_INFO_HTML (html m) \<and>
              (\<forall>d. ToString (get_field b ''preferredDay'') = Some d \<and>
                   ((\<exists>s. get_field b ''preferredDay'' = JString s) \<or>
                    truthy (get_field b ''preferredDay''))
                   \<longrightarrow> sublist d (html m)) \<and>
              sublist ''<h4>Note: You will be required to show this confirmationemail with you when you come.</h4>''
                (html m)\<close>
    apply (rule exI[of _ ?m], rule exI[of _ c])
    apply (simp only: run h t)
    apply (intro conjI)
           apply (rule refl)
          apply (rule refl)
         apply (simp add: message_of_def)
        apply (rule refl)
       apply (rule 1)
      apply (rule 2)
     apply (intro allI impI)
     apply (erule 3)
    apply (rule 4)
    done
next
  assume bad: "ToString (get_field b ''itemName'') = None \<or>
          ToString (get_field b ''parentName'') = None \<or>
          ToString (get_field b ''childName'') = None \<or>
          ToString (get_field b ''preferredDay'') = None"
  show "status_updated e send log (Some b) =
              (\<lparr>status = 500, body = [(''error'', JString ''Failed to send email'')]\<rparr>, log)"
  proof (cases "ToString (get_field b ''itemName'')")
    case None
    with assms show ?thesis
      by (intro status_updated_item_throws) simp_all
  next
    case (Some i)
    from bad have "ready_content (get_field b ''parentName'') (get_field b ''itemName'')
                    (get_field b ''childName'') (get_field b ''preferredDay'') = None"
      by (simp only: ready_content_None) (elim disjE; simp)
    with assms show ?thesis
      by (simp add: status_updated_sends[OF _ _ _ _ Some])
  qed
qed

theorem ready_for_pickup_email_witness:
  \<open>truthy (get_field body_ready ''parentEmail'') \<and> truthy (get_field body_ready ''itemName'') \<and>
   get_field body_ready ''newStatus'' = JString ''Ready for Pickup'' \<and>
   get_field body_ready ''preferredDay'' = JString ''Monday'' \<and>
   ToString (get_field body_ready ''itemName'') = Some ''Lego'' \<and>
   ToString (get_field body_ready ''parentName'') \<noteq> None \<and>
   ToString (get_field body_ready ''childName'') \<noteq> None \<and>
   ToString (get_field body_ready ''preferredDay'') = Some ''Monday'' \<and>
   (\<exists>m. snd (status_updated env_plain accept_all [] (Some body_ready)) = [m] \<and>
        to m = JString ''ann@example.org'' \<and>
        subject m = [CHR 0xF0, CHR 0x9F, CHR 0x8E, CHR 0x89] @ '' "Lego" is ready for pickup'' \<and>
        sublist ''<h2 style="color:#003366;">Your Toy is Ready for Pickup</h2>'' (html m) \<and>
        sublist PICKUP_INFO_HTML (html m) \<and>
        sublist ''Monday'' (html m) \<and>
        sublist ''<h4>Note: You will be required to show this confirmationemail with you when you come.</h4>''
          (html m)) \<and>
   truthy (get_field body_ready_unprintable ''parentEmail'') \<and>
   truthy (get_field body_ready_unprintable ''itemName'') \<and>
   get_field body_ready_unprintable ''newStatus'' = JString ''Ready for Pickup'' \<and>
   ToString (get_field body_ready_unprintable ''itemName'') = None \<and>
   status_updated env_plain accept_all [] (Some body_ready_unprintable) =
     (\<lparr>status = 500, body = [(''error'', JString ''Failed to send email'')]\<rparr>, [])\<close>
proof -
  have h: "truthy (get_field body_ready ''parentEmail'')" "truthy (get_field body_ready ''itemName'')"
    "get_field body_ready ''newStatus'' = JString ''Ready for Pickup''"
    by (simp_all add: body_ready_def get_field_def)
  have v: "get_field body_ready ''parentEmail'' = JString ''ann@example.org''"
    "ToString (get_field body_ready ''itemName'') = Some ''Lego''"
    "get_field body_ready ''preferredDay'' = JString ''Monday''"
    "ToString (get_field body_ready ''parentName'') \<noteq> None"
    "ToString (get_field body_ready ''childName'') \<noteq> None"
    "ToString (get_field body_ready ''preferredDay'') = Some ''Monday''"
    by (simp_all add: body_ready_def get_field_def)
  have h': "truthy (get_field body_ready_unprintable ''parentEmail'')"
    "truthy (get_field body_ready_unprintable ''itemName'')"
    "get_field body_ready_unprintable ''newStatus'' = JString ''Ready for Pickup''"
    by (simp_all add: body_ready_unprintable_def unprintable_def get_field_def)
  have v': "ToString (get_field body_ready_unprintable ''itemName'') = None"
    by (simp add: body_ready_unprintable_def unprintable_def get_field_def)
  have good: "ToString (get_field body_ready ''itemName'') = Some ''Lego'' \<and>
              ToString (get_field body_ready ''parentName'') \<noteq> None \<and>
              ToString (get_field body_ready ''childName'') \<noteq> None \<and>
              ToString (get_field body_ready ''preferredDay'') \<noteq> None"
    by (simp add: v)
  note t = ready_for_pickup_email[OF h, of env_plain accept_all "[]"]
  have \<open>\<exists>m c. snd (status_updated env_plain accept_all [] (Some body_ready)) = [] @ [m] \<and>
              to m = get_field body_ready ''parentEmail'' \<and>
              subject m = [CHR 0xF0, CHR 0x9F, CHR 0x8E, CHR 0x89] @ '' "'' @ ''Lego'' @
                          ''" is ready for pickup'' \<and>
              html m = renderBrandedEmail
                         \<lparr>title = ''Your Toy is Ready for Pickup'', content = c,
                          showPickupInfo = Some True\<rparr> \<and>
              sublist ''<h2 style="color:#003366;">Your Toy is Ready for Pickup</h2>'' (html m) \<and>
              sublist PICKUP_INFO_HTML (html m) \<and>
              (\<forall>d. ToString (get_field body_ready ''preferredDay'') = Some d \<and>
                   ((\<exists>s. get_field body_ready ''preferredDay'' = JString s) \<or>
                    truthy (get_field body_ready ''preferredDay''))
                   \<longrightarrow> sublist d (html m)) \<and>
              sublist ''<h4>Note: You will be required to show this confirmationemail with you when you come.</h4>''
                (html m)\<close>
    by (rule t[THEN conjunct1, rule_format, OF good])
  then obtain m where m:
    "snd (status_updated env_plain accept_all [] (Some body_ready)) = [] @ [m]"
    "to m = get_field body_ready ''parentEmail''"
    \<open>subject m = [CHR 0xF0, CHR 0x9F, CHR 0x8E, CHR 0x89] @ '' "'' @ ''Lego'' @
                 ''" is ready for pickup''\<close>
    \<open>sublist ''<h2 style="color:#003366;">Your Toy is Ready for Pickup</h2>'' (html m)\<close>
    "sublist PICKUP_INFO_HTML (html m)"
    "\<forall>d. ToString (get_field body_ready ''preferredDay'') = Some d \<and>
                   ((\<exists>s. get_field body_ready ''preferredDay'' = JString s) \<or>
                    truthy (get_field body_ready ''preferredDay''))
                   \<longrightarrow> sublist d (html m)"
    "sublist ''<h4>Note: You will be required to show this confirmationemail with you when you come.</h4>''
       (html m)"
    by (elim exE conjE) (rule that; assumption)
  from m(6) v have day: "sublist ''Monday'' (html m)"
    by simp
  have first: \<open>\<exists>m. snd (status_updated env_plain accept_all [] (Some body_ready)) = [m] \<and>
        to m = JString ''ann@example.org'' \<and>
        subject m = [CHR 0xF0, CHR 0x9F, CHR 0x8E, CHR 0x89] @ '' "Lego" is ready for pickup'' \<and>
        sublist ''<h2 style="color:#003366;">Your Toy is Ready for Pickup</h2>'' (html m) \<and>
        sublist PICKUP_INFO_HTML (html m) \<and>
        sublist ''Monday'' (html m) \<and>
        sublist ''<h4>Note: You will be required to show this confirmationemail with you when you come.</h4>''
          (html m)\<close>
    using m(1,2,3,4,5,7) day v(1) by (intro exI[of _ m] conjI) simp_all
  have second: "status_updated env_plain accept_all [] (Some body_ready_unprintable) =
     (\<lparr>status = 500, body = [(''error'', JString ''Failed to send email'')]\<rparr>, [])"
    by (rule ready_for_pickup_email[OF h', of env_plain accept_all "[]", THEN conjunct2,
              rule_format, OF disjI1, OF v'])
  from h v h' v' first second show ?thesis
    by (intro conjI)
qed

text \<open>
  C6 as it is written says a single email for every such request, with the preferred day in
  it when the field is present. With the object \<^verbatim>\<open>{ "toString": null }\<close> as \<^verbatim>\<open>itemName\<close> the
  answer is 500 and no message is handed over. With \<^verbatim>\<open>preferredDay: false\<close> the field is
  present, the one message is sent, and \<^verbatim>\<open>false\<close> occurs nowhere in its html.
\<close>

theorem ready_for_pickup_counterexample:
  \<open>truthy (get_field body_ready_unprintable ''parentEmail'') \<and>
   truthy (get_field body_ready_unprintable ''itemName'') \<and>
   get_field body_ready_unprintable ''newStatus'' = JString ''Ready for Pickup'' \<and>
   status_updated env_plain accept_all [] (Some body_ready_unprintable) =
     (\<lparr>status = 500, body = [(''error'', JString ''Failed to send email'')]\<rparr>, []) \<and>
   truthy (get_field body_ready_false ''parentEmail'') \<and>
   truthy (get_field body_ready_false ''itemName'') \<and>
   get_field body_ready_false ''newStatus'' = JString ''Ready for Pickup'' \<and>
   body_ready_false ''preferredDay'' = Some (JBool False) \<and>
   ToString (get_field body_ready_false ''preferredDay'') = Some ''false'' \<and>
   length (snd (status_updated env_plain accept_all [] (Some body_ready_false))) = 1 \<and>
   \<not> sublist ''false''
       (html (hd (snd (status_updated env_plain accept_all [] (Some body_ready_false)))))\<close>
proof -
  have h: "truthy (get_field body_ready_unprintable ''parentEmail'')"
    "truthy (get_field body_ready_unprintable ''itemName'')"
    "get_field body_ready_unprintable ''newStatus'' = JString ''Ready for Pickup''"
    by (simp_all add: body_ready_unprintable_def unprintable_def get_field_def)
  have n: "ToString (get_field body_ready_unprintable ''itemName'') = None"
    by (simp add: body_ready_unprintable_def unprintable_def get_field_def)
  have first: "status_updated env_plain accept_all [] (Some body_ready_unprintable) =
     (\<lparr>status = 500, body = [(''error'', JString ''Failed to send email'')]\<rparr>, [])"
    using h n by (intro status_updated_item_throws) simp_all
  have f: "get_field body_ready_false ''parentEmail'' = JString ''ann@example.org''"
    "get_field body_ready_false ''itemName'' = JString ''Lego''"
    "get_field body_ready_false ''newStatus'' = JString ''Ready for Pickup''"
    "get_field body_ready_false ''preferredDay'' = JBool False"
    "get_field body_ready_false ''parentName'' = JUndefined"
    "get_field body_ready_false ''childName'' = JUndefined"
    "body_ready_false ''preferredDay'' = Some (JBool False)"
    by (simp_all add: body_ready_false_def get_field_def)
  have g: "truthy (get_field body_ready_false ''parentEmail'')"
    "truthy (get_field body_ready_false ''itemName'')"
    "truthy (get_field body_ready_false ''newStatus'')"
    "get_field body_ready_false ''newStatus'' \<noteq> JString ''On Loan''"
    "ToString (get_field body_ready_false ''itemName'') = Some ''Lego''"
    by (simp_all add: f)
  have "ready_content JUndefined (JString ''Lego'') JUndefined (JBool False) \<noteq> None"
    by (simp add: ready_content_None)
  then have c: "ready_content JUndefined (JString ''Lego'') JUndefined (JBool False) =
      Some (the (ready_content JUndefined (JString ''Lego'') JUndefined (JBool False)))"
    by simp
  let ?m = "message_of env_plain
              \<lparr>to = JString ''ann@example.org'',
               subject = [CHR 0xF0, CHR 0x9F, CHR 0x8E, CHR 0x89] @ [CHR 0x20, CHR 0x22] @
                         ''Lego'' @ CHR 0x22 # '' is ready for pickup'',
               html = renderBrandedEmail
                 \<lparr>title = ''Your Toy is Ready for Pickup'',
                  content = the (ready_content JUndefined (JString ''Lego'') JUndefined
                                   (JBool False)),
                  showPickupInfo = Some True\<rparr>\<rparr>"
  have "status_updated env_plain accept_all [] (Some body_ready_false) =
          (\<lparr>status = 200, body = [(''ok'', JBool True)]\<rparr>, [?m])"
    apply (subst status_updated_sends[OF g])
    apply (simp only: f if_True)
    apply (subst c)
    apply (simp add: send_fails_def accept_all_def)
    done
  then have run: "snd (status_updated env_plain accept_all [] (Some body_ready_false)) = [?m]"
    by simp
  have len: "length (snd (status_updated env_plain accept_all [] (Some body_ready_false))) = 1"
    by (simp only: run list.size)
  have no: "\<not> sublist ''false''
       (html (hd (snd (status_updated env_plain accept_all [] (Some body_ready_false)))))"
    using ready_false_html by (simp only: run list.sel) (simp add: message_of_def)
  have d: "ToString (get_field body_ready_false ''preferredDay'') = Some ''false''"
    by (simp add: f)
  from h first g(1,2) f(3,7) d len no show ?thesis
    by (intro conjI)
qed




section \<open>Reservations and waitlist entries\<close>

subsection \<open>The note of a reservation\<close>

lemma trimStart_no_whitespace: "w \<in> set js_whitespace \<Longrightarrow> \<not> prefix w (trimStart s)"
proof (induction s rule: trimStart.induct)
  case (1 s)
  show ?case
  proof (cases "find (\<lambda>w. prefix w s) js_whitespace")
    case None
    then have "trimStart s = s"
      by (subst trimStart.simps) simp
    moreover from None 1(2) have "\<not> prefix w s"
      by (auto simp: find_None_iff)
    ultimately show ?thesis by simp
  next
    case (Some v)
    then have "trimStart s = trimStart (drop (length v) s)"
      by (subst trimStart.simps) simp
    with 1(1)[OF Some 1(2)] show ?thesis by simp
  qed
qed

lemma trimEnd_no_whitespace: "w \<in> set js_whitespace \<Longrightarrow> \<not> suffix w (trimEnd s)"
proof (induction s rule: trimEnd.induct)
  case (1 s)
  show ?case
  proof (cases "find (\<lambda>w. suffix w s) js_whitespace")
    case None
    then have "trimEnd s = s"
      by (subst trimEnd.simps) simp
    moreover from None 1(2) have "\<not> suffix w s"
      by (auto simp: find_None_iff)
    ultimately show ?thesis by simp
  next
    case (Some v)
    then have "trimEnd s = trimEnd (take (length s - length v) s)"
      by (subst trimEnd.simps) simp
    with 1(1)[OF Some 1(2)] show ?thesis by simp
  qed
qed

lemma trimEnd_prefix: "prefix (trimEnd s) s"
proof (induction s rule: trimEnd.induct)
  case (1 s)
  show ?case
  proof (cases "find (\<lambda>w. suffix w s) js_whitespace")
    case None
    then have "trimEnd s = s"
      by (subst trimEnd.simps) simp
    then show ?thesis by simp
  next
    case (Some v)
    then have "trimEnd s = trimEnd (take (length s - length v) s)"
      by (subst trimEnd.simps) simp
    with 1[OF Some] have "prefix (trimEnd s) (take (length s - length v) s)"
      by simp
    then show ?thesis
      using take_is_prefix prefix_order.trans by blast
  qed
qed

lemma trimStart_suffix: "suffix (trimStart s) s"
proof (induction s rule: trimStart.induct)
  case (1 s)
  show ?case
  proof (cases "find (\<lambda>w. prefix w s) js_whitespace")
    case None
    then have "trimStart s = s"
      by (subst trimStart.simps) simp
    then show ?thesis by simp
  next
    case (Some v)
    then have "trimStart s = trimStart (drop (length v) s)"
      by (subst trimStart.simps) simp
    with 1[OF Some] have "suffix (trimStart s) (drop (length v) s)"
      by simp
    then show ?thesis
      using suffix_drop suffix_order.trans by blast
  qed
qed

lemma trim_no_whitespace:
  assumes "w \<in> set js_whitespace"
  shows "\<not> prefix w (trim s) \<and> \<not> suffix w (trim s)"
proof
  show "\<not> prefix w (trim s)"
  proof
    assume "prefix w (trim s)"
    then have "prefix w (trimStart s)"
      unfolding trim_def using trimEnd_prefix prefix_order.trans by blast
    with trimStart_no_whitespace[OF assms] show False by blast
  qed
  show "\<not> suffix w (trim s)"
    unfolding trim_def by (rule trimEnd_no_whitespace[OF assms])
qed

lemma set_trim: "set (trim s) \<subseteq> set s"
proof -
  have "set (trimEnd (trimStart s)) \<subseteq> set (trimStart s)"
    using trimEnd_prefix set_mono_prefix by blast
  moreover have "set (trimStart s) \<subseteq> set s"
    using trimStart_suffix set_mono_suffix by blast
  ultimately show ?thesis by (simp add: trim_def)
qed

lemma replace_newlines_no_newline: "CHR 0x0A \<notin> set (replace_newlines s)"
  by (induction s) (auto simp: replace_newlines_def)

lemma replace_newlines_append:
  "replace_newlines (xs @ ys) = replace_newlines xs @ replace_newlines ys"
  by (simp add: replace_newlines_def)

lemma replace_newlines_at:
  "replace_newlines (xs @ CHR 0x0A # ys) = replace_newlines xs @ ''<br />'' @ replace_newlines ys"
  by (simp add: replace_newlines_def)

text \<open>
  C5, as the code has it. A reservation with truthy required fields and a \<^verbatim>\<open>note\<close> string
  that holds a line feed. When \<^verbatim>\<open>itemName\<close>, \<^verbatim>\<open>parentName\<close>, \<^verbatim>\<open>childName\<close> and \<^verbatim>\<open>preferredDay\<close>
  convert to strings, the html of the recipient message, the first one handed over, contains
  the note paragraph with \<^verbatim>\<open>String(note).replace(/\n/g, "<br />").trim()\<close> in it. In the
  rendered note every line feed of the note has become \<^verbatim>\<open><br />\<close> (none is left), and no white
  space stands at its start or at its end. When one of the four fields does not convert, a
  template throws: the answer is 500 and nothing is rendered or handed over.
\<close>

theorem reservation_note_rendering:
  assumes "truthy (get_field b ''parentEmail'')" and "truthy (get_field b ''itemName'')"
      and "get_field b ''note'' = JString s" and "CHR 0x0A \<in> set s"
  shows "(ToString (get_field b ''itemName'') \<noteq> None \<and>
          ToString (get_field b ''parentName'') \<noteq> None \<and>
          ToString (get_field b ''childName'') \<noteq> None \<and>
          ToString (get_field b ''preferredDay'') \<noteq> None \<longrightarrow>
          (\<exists>m rest.
             snd (reservation_created e send log (Some b)) = log @ m # rest \<and>
             to m = get_field b ''parentEmail'' \<and>
             sublist (''<p><strong>Your note:</strong><br />'' @ trim (replace_newlines s) @
                      ''</p>'') (html m) \<and>
             CHR 0x0A \<notin> set (trim (replace_newlines s)) \<and>
             (\<forall>w \<in> set js_whitespace.
                \<not> prefix w (trim (replace_newlines s)) \<and>
                \<not> suffix w (trim (replace_newlines s))) \<and>
             (\<forall>xs ys. s = xs @ CHR 0x0A # ys \<longrightarrow>
                replace_newlines s = replace_newlines xs @ ''<br />'' @ replace_newlines ys))) \<and>
         (ToString (get_field b ''itemName'') = None \<or>
          ToString (get_field b ''parentName'') = None \<or>
          ToString (get_field b ''childName'') = None \<or>
          ToString (get_field b ''preferredDay'') = None \<longrightarrow>
            reservation_created e send log (Some b) =
              (\<lparr>status = 500, body = [(''error'', JString ''Failed to send email'')]\<rparr>, log))"
proof (intro conjI impI)
  assume conv: "ToString (get_field b ''itemName'') \<noteq> None \<and>
          ToString (get_field b ''parentName'') \<noteq> None \<and>
          ToString (get_field b ''childName'') \<noteq> None \<and>
          ToString (get_field b ''preferredDay'') \<noteq> None"
  then obtain i where i: "ToString (get_field b ''itemName'') = Some i"
    by blast
  from conv have "reservation_pickup_line (get_field b ''preferredDay'') \<noteq> None"
    by (simp add: reservation_pickup_line_None)
  then obtain pl where pl: "reservation_pickup_line (get_field b ''preferredDay'') = Some pl"
    by blast
  have n: "truthy (get_field b ''note'')" "ToString (get_field b ''note'') = Some s"
    using assms(3,4) by auto
  from conv n(2) have "reservation_content (get_field b ''parentName'') (get_field b ''itemName'')
          (get_field b ''childName'') pl (get_field b ''note'') \<noteq> None"
    by (simp add: reservation_content_None)
  then obtain c where c: "reservation_content (get_field b ''parentName'')
          (get_field b ''itemName'') (get_field b ''childName'') pl (get_field b ''note'') = Some c"
    by blast
  let ?a = "\<lparr>title = ''Reservation Received'', content = c, showPickupInfo = Some False\<rparr>"
  let ?m = "message_of e
              \<lparr>to = get_field b ''parentEmail'',
               subject = ''Reservation received for '' @ [CHR 0x22] @ i @ [CHR 0x22],
               html = renderBrandedEmail ?a\<rparr>"
  have "\<exists>rest. snd (reservation_created e send log (Some b)) = log @ ?m # rest"
    by (simp add: reservation_created_sends[OF assms(1,2) i pl c refl] split: option.split)
  then obtain rest where run: "snd (reservation_created e send log (Some b)) = log @ ?m # rest" ..
  have h: "html ?m = renderBrandedEmail ?a" and t: "to ?m = get_field b ''parentEmail''"
    by (simp_all add: message_of_def)
  have 1: "sublist (''<p><strong>Your note:</strong><br />'' @ trim (replace_newlines s) @
                    ''</p>'') (renderBrandedEmail ?a)"
  proof (rule in_content)
    show "sublist (''<p><strong>Your note:</strong><br />'' @ trim (replace_newlines s) @
                   ''</p>'') (content ?a)"
      using reservation_content_note[OF c n] by simp
  qed
  have 2: "CHR 0x0A \<notin> set (trim (replace_newlines s))"
    using set_trim replace_newlines_no_newline by blast
  have 3: "\<forall>w \<in> set js_whitespace.
             \<not> prefix w (trim (replace_newlines s)) \<and> \<not> suffix w (trim (replace_newlines s))"
    using trim_no_whitespace by blast
  have 4: "\<forall>xs ys. s = xs @ CHR 0x0A # ys \<longrightarrow>
             replace_newlines s = replace_newlines xs @ ''<br />'' @ replace_newlines ys"
    using replace_newlines_at by blast
  show "\<exists>m rest.
             snd (reservation_created e send log (Some b)) = log @ m # rest \<and>
             to m = get_field b ''parentEmail'' \<and>
             sublist (''<p><strong>Your note:</strong><br />'' @ trim (replace_newlines s) @
                      ''</p>'') (html m) \<and>
             CHR 0x0A \<notin> set (trim (replace_newlines s)) \<and>
             (\<forall>w \<in> set js_whitespace.
                \<not> prefix w (trim (replace_newlines s)) \<and>
                \<not> suffix w (trim (replace_newlines s))) \<and>
             (\<forall>xs ys. s = xs @ CHR 0x0A # ys \<longrightarrow>
                replace_newlines s = replace_newlines xs @ ''<br />'' @ replace_newlines ys)"
    apply (rule exI[of _ ?m], rule exI[of _ rest])
    apply (simp only: run h t)
    apply (intro conjI 1 2 3 4 refl)
    done
next
  assume bad: "ToString (get_field b ''itemName'') = None \<or>
          ToString (get_field b ''parentName'') = None \<or>
          ToString (get_field b ''childName'') = None \<or>
          ToString (get_field b ''preferredDay'') = None"
  show "reservation_created e send log (Some b) =
              (\<lparr>status = 500, body = [(''error'', JString ''Failed to send email'')]\<rparr>, log)"
  proof (rule reservation_created_throws[OF assms(1,2)])
    from bad show "ToString (get_field b ''itemName'') = None \<or>
           ToString (get_field b ''parentName'') = None \<or>
           ToString (get_field b ''childName'') = None \<or>
           ToString (get_field b ''preferredDay'') = None \<or>
           ToString (get_field b ''note'') = None"
      by (elim disjE; simp)
  qed
qed

theorem reservation_note_rendering_witness:
  "truthy (get_field body_reservation ''parentEmail'') \<and>
   truthy (get_field body_reservation ''itemName'') \<and>
   get_field body_reservation ''note'' = JString ''  ring the bell\<newline>twice  '' \<and>
   CHR 0x0A \<in> set ''  ring the bell\<newline>twice  '' \<and>
   ToString (get_field body_reservation ''itemName'') \<noteq> None \<and>
   ToString (get_field body_reservation ''parentName'') \<noteq> None \<and>
   ToString (get_field body_reservation ''childName'') \<noteq> None \<and>
   ToString (get_field body_reservation ''preferredDay'') \<noteq> None \<and>
   trim (replace_newlines ''  ring the bell\<newline>twice  '') = ''ring the bell<br />twice'' \<and>
   (\<exists>m rest.
      snd (reservation_created env_admin accept_all [] (Some body_reservation)) = m # rest \<and>
      to m = JString ''ann@example.org'' \<and>
      sublist ''<p><strong>Your note:</strong><br />ring the bell<br />twice</p>'' (html m)) \<and>
   truthy (get_field body_reservation_unprintable ''parentEmail'') \<and>
   truthy (get_field body_reservation_unprintable ''itemName'') \<and>
   get_field body_reservation_unprintable ''note'' = JString ''  ring the bell\<newline>twice  '' \<and>
   ToString (get_field body_reservation_unprintable ''parentName'') = None \<and>
   reservation_created env_admin accept_all [] (Some body_reservation_unprintable) =
     (\<lparr>status = 500, body = [(''error'', JString ''Failed to send email'')]\<rparr>, [])"
proof -
  have h: "truthy (get_field body_reservation ''parentEmail'')"
    "truthy (get_field body_reservation ''itemName'')"
    "get_field body_reservation ''note'' = JString ''  ring the bell\<newline>twice  ''"
    "CHR 0x0A \<in> set ''  ring the bell\<newline>twice  ''"
    by (simp_all add: body_reservation_def get_field_def)
  have v: "get_field body_reservation ''parentEmail'' = JString ''ann@example.org''"
    by (simp add: body_reservation_def get_field_def)
  have good: "ToString (get_field body_reservation ''itemName'') \<noteq> None \<and>
   ToString (get_field body_reservation ''parentName'') \<noteq> None \<and>
   ToString (get_field body_reservation ''childName'') \<noteq> None \<and>
   ToString (get_field body_reservation ''preferredDay'') \<noteq> None"
    by (simp add: body_reservation_def get_field_def)
  have h': "truthy (get_field body_reservation_unprintable ''parentEmail'')"
    "truthy (get_field body_reservation_unprintable ''itemName'')"
    "get_field body_reservation_unprintable ''note'' = JString ''  ring the bell\<newline>twice  ''"
    by (simp_all add: body_reservation_unprintable_def unprintable_def get_field_def)
  have v': "ToString (get_field body_reservation_unprintable ''parentName'') = None"
    by (simp add: body_reservation_unprintable_def unprintable_def get_field_def)
  have r: "trim (replace_newlines ''  ring the bell\<newline>twice  '') = ''ring the bell<br />twice''"
    by code_simp
  have "\<exists>m rest.
             snd (reservation_created env_admin accept_all [] (Some body_reservation)) =
               [] @ m # rest \<and>
             to m = get_field body_reservation ''parentEmail'' \<and>
             sublist (''<p><strong>Your note:</strong><br />'' @
                      trim (replace_newlines ''  ring the bell\<newline>twice  '') @
                      ''</p>'') (html m) \<and>
             CHR 0x0A \<notin> set (trim (replace_newlines ''  ring the bell\<newline>twice  '')) \<and>
             (\<forall>w \<in> set js_whitespace.
                \<not> prefix w (trim (replace_newlines ''  ring the bell\<newline>twice  '')) \<and>
                \<not> suffix w (trim (replace_newlines ''  ring the bell\<newline>twice  ''))) \<and>
             (\<forall>xs ys. ''  ring the bell\<newline>twice  '' = xs @ CHR 0x0A # ys \<longrightarrow>
                replace_newlines ''  ring the bell\<newline>twice  '' =
                  replace_newlines xs @ ''<br />'' @ replace_newlines ys)"
    by (rule reservation_note_rendering[OF h, of env_admin accept_all "[]", THEN conjunct1,
               rule_format, OF good])
  then obtain m rest where m:
    "snd (reservation_created env_admin accept_all [] (Some body_reservation)) = [] @ m # rest"
    "to m = get_field body_reservation ''parentEmail''"
    "sublist (''<p><strong>Your note:</strong><br />'' @
              trim (replace_newlines ''  ring the bell\<newline>twice  '') @ ''</p>'') (html m)"
    by (elim exE conjE) (rule that; assumption)
  have first: "\<exists>m rest.
      snd (reservation_created env_admin accept_all [] (Some body_reservation)) = m # rest \<and>
      to m = JString ''ann@example.org'' \<and>
      sublist ''<p><strong>Your note:</strong><br />ring the bell<br />twice</p>'' (html m)"
    using m v r by (intro exI[of _ m] exI[of _ rest] conjI) simp_all
  have second: "reservation_created env_admin accept_all [] (Some body_reservation_unprintable) =
     (\<lparr>status = 500, body = [(''error'', JString ''Failed to send email'')]\<rparr>, [])"
    by (rule reservation_note_rendering[OF h'(1,2,3) h(4), of env_admin accept_all "[]",
               THEN conjunct2, rule_format, OF disjI2, OF disjI1, OF v'])
  from h good r first second h' v' show ?thesis
    by (intro conjI) simp_all
qed

text \<open>
  C5 as it is written says that the note is rendered for every such request. With the object
  \<^verbatim>\<open>{ "toString": null }\<close> as \<^verbatim>\<open>parentName\<close> the answer is 500 and no message is handed over.
\<close>

theorem reservation_note_counterexample:
  "truthy (get_field body_reservation_unprintable ''parentEmail'') \<and>
   truthy (get_field body_reservation_unprintable ''itemName'') \<and>
   get_field body_reservation_unprintable ''note'' = JString ''  ring the bell\<newline>twice  '' \<and>
   CHR 0x0A \<in> set ''  ring the bell\<newline>twice  '' \<and>
   reservation_created env_admin accept_all [] (Some body_reservation_unprintable) =
     (\<lparr>status = 500, body = [(''error'', JString ''Failed to send email'')]\<rparr>, []) \<and>
   snd (reservation_created env_admin accept_all [] (Some body_reservation_unprintable)) = []"
proof -
  have h: "truthy (get_field body_reservation_unprintable ''parentEmail'')"
    "truthy (get_field body_reservation_unprintable ''itemName'')"
    "get_field body_reservation_unprintable ''note'' = JString ''  ring the bell\<newline>twice  ''"
    "CHR 0x0A \<in> set ''  ring the bell\<newline>twice  ''"
    by (simp_all add: body_reservation_unprintable_def unprintable_def get_field_def)
  have n: "ToString (get_field body_reservation_unprintable ''parentName'') = None"
    by (simp add: body_reservation_unprintable_def unprintable_def get_field_def)
  have "reservation_created env_admin accept_all [] (Some body_reservation_unprintable) =
     (\<lparr>status = 500, body = [(''error'', JString ''Failed to send email'')]\<rparr>, [])"
    by (rule reservation_created_throws[OF h(1,2)]) (simp add: n)
  with h show ?thesis by simp
qed

subsection \<open>Recipient message and admin copy\<close>

text \<open>
  C8, as the code has it. A reservation or a waitlist entry with truthy \<^verbatim>\<open>parentEmail\<close> and
  \<^verbatim>\<open>itemName\<close>. When every field the route interpolates converts to a string, the recipient
  message \<open>m1\<close> goes to \<^verbatim>\<open>parentEmail\<close> and names the item in its subject and html; the admin
  copy \<open>m2\<close> goes to \<^verbatim>\<open>process.env.ADMIN_EMAIL\<close> and names the item and the parent's address.
  With the administrator address configured (set and not empty), the sender is handed \<open>m1\<close>
  and then, once \<open>m1\<close> is delivered, \<open>m2\<close>: exactly these two, in this order; when \<open>m1\<close>
  fails, \<open>m2\<close> is not attempted. Without an administrator address the sender is handed
  \<open>m1\<close> only. When a field of the recipient message does not convert, the answer is 500 and
  nothing is handed over. When only \<^verbatim>\<open>parentEmail\<close> does not convert, \<open>m1\<close> alone is handed
  over, and the answer is 500 when the administrator address is configured or \<open>m1\<close> fails.
\<close>

theorem created_routes_calls:
  assumes "truthy (get_field b ''parentEmail'')" and "truthy (get_field b ''itemName'')"
  shows
   "(\<forall>i a. ToString (get_field b ''itemName'') = Some i \<and>
          ToString (get_field b ''parentEmail'') = Some a \<and>
          ToString (get_field b ''parentName'') \<noteq> None \<and>
          ToString (get_field b ''childName'') \<noteq> None \<and>
          ToString (get_field b ''preferredDay'') \<noteq> None \<and>
          ToString (get_field b ''note'') \<noteq> None \<longrightarrow>
      (\<exists>m1 m2.
         to m1 = get_field b ''parentEmail'' \<and>
         sublist i (subject m1) \<and>
         sublist i (html m1) \<and>
         to m2 = process_env (ADMIN_EMAIL e) \<and>
         sublist i (subject m2) \<and>
         sublist i (html m2) \<and>
         sublist a (html m2) \<and>
         (truthy (process_env (ADMIN_EMAIL e)) \<and> \<not> send_fails send log m1 \<longrightarrow>
            snd (reservation_created e send log (Some b)) = log @ [m1, m2]) \<and>
         (truthy (process_env (ADMIN_EMAIL e)) \<and> send_fails send log m1 \<longrightarrow>
            snd (reservation_created e send log (Some b)) = log @ [m1]) \<and>
         (\<not> truthy (process_env (ADMIN_EMAIL e)) \<longrightarrow>
            snd (reservation_created e send log (Some b)) = log @ [m1]))) \<and>
    (\<forall>i a. ToString (get_field b ''itemName'') = Some i \<and>
          ToString (get_field b ''parentEmail'') = Some a \<and>
          ToString (get_field b ''parentName'') \<noteq> None \<and>
          ToString (get_field b ''childName'') \<noteq> None \<longrightarrow>
      (\<exists>m1 m2.
         to m1 = get_field b ''parentEmail'' \<and>
         sublist i (subject m1) \<and>
         sublist i (html m1) \<and>
         to m2 = process_env (ADMIN_EMAIL e) \<and>
         sublist i (subject m2) \<and>
         sublist i (html m2) \<and>
         sublist a (html m2) \<and>
         (truthy (process_env (ADMIN_EMAIL e)) \<and> \<not> send_fails send log m1 \<longrightarrow>
            snd (waitlist_created e send log (Some b)) = log @ [m1, m2]) \<and>
         (truthy (process_env (ADMIN_EMAIL e)) \<and> send_fails send log m1 \<longrightarrow>
            snd (waitlist_created e send log (Some b)) = log @ [m1]) \<and>
         (\<not> truthy (process_env (ADMIN_EMAIL e)) \<longrightarrow>
            snd (waitlist_created e send log (Some b)) = log @ [m1]))) \<and>
    (ToString (get_field b ''itemName'') = None \<or>
     ToString (get_field b ''parentName'') = None \<or>
     ToString (get_field b ''childName'') = None \<or>
     ToString (get_field b ''preferredDay'') = None \<or>
     ToString (get_field b ''note'') = None \<longrightarrow>
      reservation_created e send log (Some b) =
        (\<lparr>status = 500, body = [(''error'', JString ''Failed to send email'')]\<rparr>, log)) \<and>
    (ToString (get_field b ''itemName'') = None \<or>
     ToString (get_field b ''parentName'') = None \<or>
     ToString (get_field b ''childName'') = None \<longrightarrow>
      waitlist_created e send log (Some b) =
        (\<lparr>status = 500, body = [(''error'', JString ''Failed to send email'')]\<rparr>, log)) \<and>
    (ToString (get_field b ''parentEmail'') = None \<and>
     ToString (get_field b ''itemName'') \<noteq> None \<and>
     ToString (get_field b ''parentName'') \<noteq> None \<and>
     ToString (get_field b ''childName'') \<noteq> None \<and>
     ToString (get_field b ''preferredDay'') \<noteq> None \<and>
     ToString (get_field b ''note'') \<noteq> None \<longrightarrow>
      (\<exists>m1. to m1 = get_field b ''parentEmail'' \<and>
         snd (reservation_created e send log (Some b)) = log @ [m1] \<and>
         (truthy (process_env (ADMIN_EMAIL e)) \<or> send_fails send log m1 \<longrightarrow>
            fst (reservation_created e send log (Some b)) =
              \<lparr>status = 500, body = [(''error'', JString ''Failed to send email'')]\<rparr>))) \<and>
    (ToString (get_field b ''parentEmail'') = None \<and>
     ToString (get_field b ''itemName'') \<noteq> None \<and>
     ToString (get_field b ''parentName'') \<noteq> None \<and>
     ToString (get_field b ''childName'') \<noteq> None \<longrightarrow>
      (\<exists>m1. to m1 = get_field b ''parentEmail'' \<and>
         snd (waitlist_created e send log (Some b)) = log @ [m1] \<and>
         (truthy (process_env (ADMIN_EMAIL e)) \<or> send_fails send log m1 \<longrightarrow>
            fst (waitlist_created e send log (Some b)) =
              \<lparr>status = 500, body = [(''error'', JString ''Failed to send email'')]\<rparr>)))"
proof (intro conjI allI impI; (elim conjE)?)
  fix i a
  assume "ToString (get_field b ''itemName'') = Some i"
    "ToString (get_field b ''parentEmail'') = Some a"
    "ToString (get_field b ''parentName'') \<noteq> None"
    "ToString (get_field b ''childName'') \<noteq> None"
    "ToString (get_field b ''preferredDay'') \<noteq> None"
    "ToString (get_field b ''note'') \<noteq> None"
  then show "\<exists>m1 m2.
       to m1 = get_field b ''parentEmail'' \<and>
       sublist i (subject m1) \<and>
       sublist i (html m1) \<and>
       to m2 = process_env (ADMIN_EMAIL e) \<and>
       sublist i (subject m2) \<and>
       sublist i (html m2) \<and>
       sublist a (html m2) \<and>
       (truthy (process_env (ADMIN_EMAIL e)) \<and> \<not> send_fails send log m1 \<longrightarrow>
          snd (reservation_created e send log (Some b)) = log @ [m1, m2]) \<and>
       (truthy (process_env (ADMIN_EMAIL e)) \<and> send_fails send log m1 \<longrightarrow>
          snd (reservation_created e send log (Some b)) = log @ [m1]) \<and>
       (\<not> truthy (process_env (ADMIN_EMAIL e)) \<longrightarrow>
          snd (reservation_created e send log (Some b)) = log @ [m1])"
    by (rule reservation_created_calls[OF assms])
next
  fix i a
  assume "ToString (get_field b ''itemName'') = Some i"
    "ToString (get_field b ''parentEmail'') = Some a"
    "ToString (get_field b ''parentName'') \<noteq> None"
    "ToString (get_field b ''childName'') \<noteq> None"
  then show "\<exists>m1 m2.
       to m1 = get_field b ''parentEmail'' \<and>
       sublist i (subject m1) \<and>
       sublist i (html m1) \<and>
       to m2 = process_env (ADMIN_EMAIL e) \<and>
       sublist i (subject m2) \<and>
       sublist i (html m2) \<and>
       sublist a (html m2) \<and>
       (truthy (process_env (ADMIN_EMAIL e)) \<and> \<not> send_fails send log m1 \<longrightarrow>
          snd (waitlist_created e send log (Some b)) = log @ [m1, m2]) \<and>
       (truthy (process_env (ADMIN_EMAIL e)) \<and> send_fails send log m1 \<longrightarrow>
          snd (waitlist_created e send log (Some b)) = log @ [m1]) \<and>
       (\<not> truthy (process_env (ADMIN_EMAIL e)) \<longrightarrow>
          snd (waitlist_created e send log (Some b)) = log @ [m1])"
    by (rule waitlist_created_calls[OF assms])
next
  assume "ToString (get_field b ''itemName'') = None \<or>
     ToString (get_field b ''parentName'') = None \<or>
     ToString (get_field b ''childName'') = None \<or>
     ToString (get_field b ''preferredDay'') = None \<or>
     ToString (get_field b ''note'') = None"
  then show "reservation_created e send log (Some b) =
        (\<lparr>status = 500, body = [(''error'', JString ''Failed to send email'')]\<rparr>, log)"
    by (rule reservation_created_throws[OF assms])
next
  assume "ToString (get_field b ''itemName'') = None \<or>
     ToString (get_field b ''parentName'') = None \<or>
     ToString (get_field b ''childName'') = None"
  then show "waitlist_created e send log (Some b) =
        (\<lparr>status = 500, body = [(''error'', JString ''Failed to send email'')]\<rparr>, log)"
    by (rule waitlist_created_throws[OF assms])
next
  assume "ToString (get_field b ''parentEmail'') = None"
    "ToString (get_field b ''itemName'') \<noteq> None"
    "ToString (get_field b ''parentName'') \<noteq> None"
    "ToString (get_field b ''childName'') \<noteq> None"
    "ToString (get_field b ''preferredDay'') \<noteq> None"
    "ToString (get_field b ''note'') \<noteq> None"
  then show "\<exists>m1. to m1 = get_field b ''parentEmail'' \<and>
       snd (reservation_created e send log (Some b)) = log @ [m1] \<and>
       (truthy (process_env (ADMIN_EMAIL e)) \<or> send_fails send log m1 \<longrightarrow>
          fst (reservation_created e send log (Some b)) =
            \<lparr>status = 500, body = [(''error'', JString ''Failed to send email'')]\<rparr>)"
    by (rule reservation_created_admin_throws[OF assms])
next
  assume "ToString (get_field b ''parentEmail'') = None"
    "ToString (get_field b ''itemName'') \<noteq> None"
    "ToString (get_field b ''parentName'') \<noteq> None"
    "ToString (get_field b ''childName'') \<noteq> None"
  then show "\<exists>m1. to m1 = get_field b ''parentEmail'' \<and>
       snd (waitlist_created e send log (Some b)) = log @ [m1] \<and>
       (truthy (process_env (ADMIN_EMAIL e)) \<or> send_fails send log m1 \<longrightarrow>
          fst (waitlist_created e send log (Some b)) =
            \<lparr>status = 500, body = [(''error'', JString ''Failed to send email'')]\<rparr>)"
    by (rule waitlist_created_admin_throws[OF assms])
qed

theorem created_routes_calls_witness:
  "truthy (get_field body_reservation ''parentEmail'') \<and>
   truthy (get_field body_reservation ''itemName'') \<and>
   truthy (process_env (ADMIN_EMAIL env_admin)) \<and>
   \<not> truthy (process_env (ADMIN_EMAIL env_plain)) \<and>
   (\<exists>m1 m2.
      snd (reservation_created env_admin accept_all [] (Some body_reservation)) = [m1, m2] \<and>
      to m1 = JString ''ann@example.org'' \<and> sublist ''Lego'' (subject m1) \<and>
      to m2 = JString ''admin@example.org'' \<and> sublist ''Lego'' (subject m2) \<and>
      sublist ''ann@example.org'' (html m2)) \<and>
   (\<exists>m1 m2.
      snd (waitlist_created env_admin accept_all [] (Some body_reservation)) = [m1, m2] \<and>
      to m1 = JString ''ann@example.org'' \<and> sublist ''Lego'' (subject m1) \<and>
      to m2 = JString ''admin@example.org'' \<and> sublist ''Lego'' (subject m2) \<and>
      sublist ''ann@example.org'' (html m2)) \<and>
   (\<exists>m1.
      snd (reservation_created env_plain accept_all [] (Some body_reservation)) = [m1] \<and>
      to m1 = JString ''ann@example.org'' \<and> sublist ''Lego'' (subject m1)) \<and>
   truthy (get_field body_reservation_unprintable ''parentEmail'') \<and>
   truthy (get_field body_reservation_unprintable ''itemName'') \<and>
   ToString (get_field body_reservation_unprintable ''parentName'') = None \<and>
   reservation_created env_admin accept_all [] (Some body_reservation_unprintable) =
     (\<lparr>status = 500, body = [(''error'', JString ''Failed to send email'')]\<rparr>, []) \<and>
   waitlist_created env_admin accept_all [] (Some body_reservation_unprintable) =
     (\<lparr>status = 500, body = [(''error'', JString ''Failed to send email'')]\<rparr>, []) \<and>
   truthy (get_field body_reservation_email_object ''parentEmail'') \<and>
   truthy (get_field body_reservation_email_object ''itemName'') \<and>
   ToString (get_field body_reservation_email_object ''parentEmail'') = None \<and>
   (\<exists>m1.
      snd (reservation_created env_admin accept_all [] (Some body_reservation_email_object)) =
        [m1] \<and>
      fst (reservation_created env_admin accept_all [] (Some body_reservation_email_object)) =
        \<lparr>status = 500, body = [(''error'', JString ''Failed to send email'')]\<rparr>) \<and>
   (\<exists>m1.
      snd (waitlist_created env_admin accept_all [] (Some body_reservation_email_object)) =
        [m1] \<and>
      fst (waitlist_created env_admin accept_all [] (Some body_reservation_email_object)) =
        \<lparr>status = 500, body = [(''error'', JString ''Failed to send email'')]\<rparr>)"
proof -
  have h: "truthy (get_field body_reservation ''parentEmail'')"
    "truthy (get_field body_reservation ''itemName'')"
    by (simp_all add: body_reservation_def get_field_def)
  have v: "get_field body_reservation ''parentEmail'' = JString ''ann@example.org''"
    "process_env (ADMIN_EMAIL env_admin) = JString ''admin@example.org''"
    by (simp_all add: body_reservation_def get_field_def env_admin_def process_env_def)
  have good: "ToString (get_field body_reservation ''itemName'') = Some ''Lego'' \<and>
          ToString (get_field body_reservation ''parentEmail'') = Some ''ann@example.org'' \<and>
          ToString (get_field body_reservation ''parentName'') \<noteq> None \<and>
          ToString (get_field body_reservation ''childName'') \<noteq> None \<and>
          ToString (get_field body_reservation ''preferredDay'') \<noteq> None \<and>
          ToString (get_field body_reservation ''note'') \<noteq> None"
    by (simp add: body_reservation_def get_field_def)
  have good': "ToString (get_field body_reservation ''itemName'') = Some ''Lego'' \<and>
          ToString (get_field body_reservation ''parentEmail'') = Some ''ann@example.org'' \<and>
          ToString (get_field body_reservation ''parentName'') \<noteq> None \<and>
          ToString (get_field body_reservation ''childName'') \<noteq> None"
    using good by blast
  have a: "truthy (process_env (ADMIN_EMAIL env_admin))"
    by (simp add: v)
  have p: "\<not> truthy (process_env (ADMIN_EMAIL env_plain))"
    by (simp add: env_plain_def process_env_def)
  have s: "\<not> send_fails accept_all l m" for l m
    by (simp add: send_fails_def accept_all_def)
  note c = created_routes_calls[OF h, of env_admin accept_all "[]"]
  from c[THEN conjunct1, rule_format, OF good] obtain m1 m2 where r:
    "to m1 = get_field body_reservation ''parentEmail''"
    "sublist ''Lego'' (subject m1)"
    "to m2 = process_env (ADMIN_EMAIL env_admin)"
    "sublist ''Lego'' (subject m2)"
    "sublist ''ann@example.org'' (html m2)"
    "truthy (process_env (ADMIN_EMAIL env_admin)) \<and> \<not> send_fails accept_all [] m1 \<longrightarrow>
       snd (reservation_created env_admin accept_all [] (Some body_reservation)) = [] @ [m1, m2]"
    by (elim exE conjE) (rule that; assumption)
  from c[THEN conjunct2, THEN conjunct1, rule_format, OF good'] obtain n1 n2 where w:
    "to n1 = get_field body_reservation ''parentEmail''"
    "sublist ''Lego'' (subject n1)"
    "to n2 = process_env (ADMIN_EMAIL env_admin)"
    "sublist ''Lego'' (subject n2)"
    "sublist ''ann@example.org'' (html n2)"
    "truthy (process_env (ADMIN_EMAIL env_admin)) \<and> \<not> send_fails accept_all [] n1 \<longrightarrow>
       snd (waitlist_created env_admin accept_all [] (Some body_reservation)) = [] @ [n1, n2]"
    by (elim exE conjE) (rule that; assumption)
  from r(6) a s
  have r': "snd (reservation_created env_admin accept_all [] (Some body_reservation)) = [m1, m2]"
    by simp
  from w(6) a s
  have w': "snd (waitlist_created env_admin accept_all [] (Some body_reservation)) = [n1, n2]"
    by simp
  have R: "\<exists>m1 m2.
      snd (reservation_created env_admin accept_all [] (Some body_reservation)) = [m1, m2] \<and>
      to m1 = JString ''ann@example.org'' \<and> sublist ''Lego'' (subject m1) \<and>
      to m2 = JString ''admin@example.org'' \<and> sublist ''Lego'' (subject m2) \<and>
      sublist ''ann@example.org'' (html m2)"
    using r' r(1-5) v by (intro exI[of _ m1] exI[of _ m2] conjI) simp_all
  have W: "\<exists>m1 m2.
      snd (waitlist_created env_admin accept_all [] (Some body_reservation)) = [m1, m2] \<and>
      to m1 = JString ''ann@example.org'' \<and> sublist ''Lego'' (subject m1) \<and>
      to m2 = JString ''admin@example.org'' \<and> sublist ''Lego'' (subject m2) \<and>
      sublist ''ann@example.org'' (html m2)"
    using w' w(1-5) v by (intro exI[of _ n1] exI[of _ n2] conjI) simp_all
  note d = created_routes_calls[OF h, of env_plain accept_all "[]"]
  from d[THEN conjunct1, rule_format, OF good] obtain k1 k2 where u:
    "to k1 = get_field body_reservation ''parentEmail''"
    "sublist ''Lego'' (subject k1)"
    "\<not> truthy (process_env (ADMIN_EMAIL env_plain)) \<longrightarrow>
       snd (reservation_created env_plain accept_all [] (Some body_reservation)) = [] @ [k1]"
    by (elim exE conjE) (rule that; assumption)
  have U: "\<exists>m1.
      snd (reservation_created env_plain accept_all [] (Some body_reservation)) = [m1] \<and>
      to m1 = JString ''ann@example.org'' \<and> sublist ''Lego'' (subject m1)"
    using u p v by (intro exI[of _ k1] conjI) simp_all
  have hu: "truthy (get_field body_reservation_unprintable ''parentEmail'')"
    "truthy (get_field body_reservation_unprintable ''itemName'')"
    by (simp_all add: body_reservation_unprintable_def get_field_def)
  have nu: "ToString (get_field body_reservation_unprintable ''parentName'') = None"
    by (simp add: body_reservation_unprintable_def unprintable_def get_field_def)
  note cu = created_routes_calls[OF hu, of env_admin accept_all "[]"]
  have X: "reservation_created env_admin accept_all [] (Some body_reservation_unprintable) =
     (\<lparr>status = 500, body = [(''error'', JString ''Failed to send email'')]\<rparr>, [])"
    by (rule cu[THEN conjunct2, THEN conjunct2, THEN conjunct1, rule_format,
                OF disjI2, OF disjI1, OF nu])
  have Y: "waitlist_created env_admin accept_all [] (Some body_reservation_unprintable) =
     (\<lparr>status = 500, body = [(''error'', JString ''Failed to send email'')]\<rparr>, [])"
    by (rule cu[THEN conjunct2, THEN conjunct2, THEN conjunct2, THEN conjunct1, rule_format,
                OF disjI2, OF disjI1, OF nu])
  have he: "truthy (get_field body_reservation_email_object ''parentEmail'')"
    "truthy (get_field body_reservation_email_object ''itemName'')"
    by (simp_all add: body_reservation_email_object_def unprintable_def get_field_def)
  have ne: "ToString (get_field body_reservation_email_object ''parentEmail'') = None"
    by (simp add: body_reservation_email_object_def unprintable_def get_field_def)
  have ge: "ToString (get_field body_reservation_email_object ''parentEmail'') = None \<and>
     ToString (get_field body_reservation_email_object ''itemName'') \<noteq> None \<and>
     ToString (get_field body_reservation_email_object ''parentName'') \<noteq> None \<and>
     ToString (get_field body_reservation_email_object ''childName'') \<noteq> None \<and>
     ToString (get_field body_reservation_email_object ''preferredDay'') \<noteq> None \<and>
     ToString (get_field body_reservation_email_object ''note'') \<noteq> None"
    by (simp add: body_reservation_email_object_def unprintable_def get_field_def)
  have ge': "ToString (get_field body_reservation_email_object ''parentEmail'') = None \<and>
     ToString (get_field body_reservation_email_object ''itemName'') \<noteq> None \<and>
     ToString (get_field body_reservation_email_object ''parentName'') \<noteq> None \<and>
     ToString (get_field body_reservation_email_object ''childName'') \<noteq> None"
    using ge by blast
  note ce = created_routes_calls[OF he, of env_admin accept_all "[]"]
  from ce[THEN conjunct2, THEN conjunct2, THEN conjunct2, THEN conjunct2, THEN conjunct1,
          rule_format, OF ge]
  obtain x1 where x:
    "snd (reservation_created env_admin accept_all [] (Some body_reservation_email_object)) =
       [] @ [x1]"
    "truthy (process_env (ADMIN_EMAIL env_admin)) \<or> send_fails accept_all [] x1 \<longrightarrow>
       fst (reservation_created env_admin accept_all [] (Some body_reservation_email_object)) =
         \<lparr>status = 500, body = [(''error'', JString ''Failed to send email'')]\<rparr>"
    by (elim exE conjE) (rule that; assumption)
  from ce[THEN conjunct2, THEN conjunct2, THEN conjunct2, THEN conjunct2, THEN conjunct2,
          rule_format, OF ge']
  obtain y1 where y:
    "snd (waitlist_created env_admin accept_all [] (Some body_reservation_email_object)) =
       [] @ [y1]"
    "truthy (process_env (ADMIN_EMAIL env_admin)) \<or> send_fails accept_all [] y1 \<longrightarrow>
       fst (waitlist_created env_admin accept_all [] (Some body_reservation_email_object)) =
         \<lparr>status = 500, body = [(''error'', JString ''Failed to send email'')]\<rparr>"
    by (elim exE conjE) (rule that; assumption)
  have E: "\<exists>m1.
      snd (reservation_created env_admin accept_all [] (Some body_reservation_email_object)) =
        [m1] \<and>
      fst (reservation_created env_admin accept_all [] (Some body_reservation_email_object)) =
        \<lparr>status = 500, body = [(''error'', JString ''Failed to send email'')]\<rparr>"
    using x a by (intro exI[of _ x1] conjI) simp_all
  have F: "\<exists>m1.
      snd (waitlist_created env_admin accept_all [] (Some body_reservation_email_object)) =
        [m1] \<and>
      fst (waitlist_created env_admin accept_all [] (Some body_reservation_email_object)) =
        \<lparr>status = 500, body = [(''error'', JString ''Failed to send email'')]\<rparr>"
    using y a by (intro exI[of _ y1] conjI) simp_all
  from h a p R W U hu nu X Y he ne E F show ?thesis by (intro conjI)
qed

text \<open>
  C8 as it is written says two calls with the administrator address configured and one call
  without it. With the object \<^verbatim>\<open>{ "toString": null }\<close> as \<^verbatim>\<open>parentEmail\<close>, the address
  configured and the recipient message delivered, one message is handed over and the answer
  is 500. With that object as \<^verbatim>\<open>parentName\<close> and no address configured, none is handed over.
\<close>

theorem created_routes_counterexample:
  "truthy (get_field body_reservation_email_object ''parentEmail'') \<and>
   truthy (get_field body_reservation_email_object ''itemName'') \<and>
   truthy (process_env (ADMIN_EMAIL env_admin)) \<and>
   length (snd (reservation_created env_admin accept_all []
                  (Some body_reservation_email_object))) = 1 \<and>
   \<not> send_fails accept_all []
       (hd (snd (reservation_created env_admin accept_all []
                   (Some body_reservation_email_object)))) \<and>
   fst (reservation_created env_admin accept_all [] (Some body_reservation_email_object)) =
     \<lparr>status = 500, body = [(''error'', JString ''Failed to send email'')]\<rparr> \<and>
   truthy (get_field body_reservation_unprintable ''parentEmail'') \<and>
   truthy (get_field body_reservation_unprintable ''itemName'') \<and>
   \<not> truthy (process_env (ADMIN_EMAIL env_plain)) \<and>
   snd (waitlist_created env_plain accept_all [] (Some body_reservation_unprintable)) = []"
proof -
  have he: "truthy (get_field body_reservation_email_object ''parentEmail'')"
    "truthy (get_field body_reservation_email_object ''itemName'')"
    by (simp_all add: body_reservation_email_object_def unprintable_def get_field_def)
  have ge: "ToString (get_field body_reservation_email_object ''parentEmail'') = None"
     "ToString (get_field body_reservation_email_object ''itemName'') \<noteq> None"
     "ToString (get_field body_reservation_email_object ''parentName'') \<noteq> None"
     "ToString (get_field body_reservation_email_object ''childName'') \<noteq> None"
     "ToString (get_field body_reservation_email_object ''preferredDay'') \<noteq> None"
     "ToString (get_field body_reservation_email_object ''note'') \<noteq> None"
    by (simp_all add: body_reservation_email_object_def unprintable_def get_field_def)
  have a: "truthy (process_env (ADMIN_EMAIL env_admin))"
    by (simp add: env_admin_def process_env_def)
  have p: "\<not> truthy (process_env (ADMIN_EMAIL env_plain))"
    by (simp add: env_plain_def process_env_def)
  have s: "\<not> send_fails accept_all l m" for l m
    by (simp add: send_fails_def accept_all_def)
  from reservation_created_admin_throws[OF he ge, of env_admin accept_all "[]"]
  obtain x1 where x:
    "snd (reservation_created env_admin accept_all [] (Some body_reservation_email_object)) =
       [] @ [x1]"
    "truthy (process_env (ADMIN_EMAIL env_admin)) \<or> send_fails accept_all [] x1 \<longrightarrow>
       fst (reservation_created env_admin accept_all [] (Some body_reservation_email_object)) =
         \<lparr>status = 500, body = [(''error'', JString ''Failed to send email'')]\<rparr>"
    by (elim exE conjE) (rule that; assumption)
  from x(1) have E1: "length (snd (reservation_created env_admin accept_all []
                  (Some body_reservation_email_object))) = 1"
    by simp
  have E2: "\<not> send_fails accept_all []
       (hd (snd (reservation_created env_admin accept_all []
                   (Some body_reservation_email_object))))"
    by (rule s)
  from x(2) a
  have E3: "fst (reservation_created env_admin accept_all [] (Some body_reservation_email_object)) =
     \<lparr>status = 500, body = [(''error'', JString ''Failed to send email'')]\<rparr>"
    by simp
  have hu: "truthy (get_field body_reservation_unprintable ''parentEmail'')"
    "truthy (get_field body_reservation_unprintable ''itemName'')"
    by (simp_all add: body_reservation_unprintable_def get_field_def)
  have nu: "ToString (get_field body_reservation_unprintable ''parentName'') = None"
    by (simp add: body_reservation_unprintable_def unprintable_def get_field_def)
  have "waitlist_created env_plain accept_all [] (Some body_reservation_unprintable) =
     (\<lparr>status = 500, body = [(''error'', JString ''Failed to send email'')]\<rparr>, [])"
    by (rule waitlist_created_throws[OF hu]) (simp add: nu)
  then have Z: "snd (waitlist_created env_plain accept_all [] (Some body_reservation_unprintable)) = []"
    by simp
  from he a E1 E2 E3 hu p Z show ?thesis by (intro conjI)
qed

section \<open>Determinism\<close>

text \<open>
  C10. A handler's answer and the messages it hands over are a function of the configuration,
  the collaborator and the fields the route destructures: two bodies that agree on those
  fields give the same result, whatever else they hold. \<^verbatim>\<open>renderBrandedEmail\<close> depends on
  \<^verbatim>\<open>title\<close>, \<^verbatim>\<open>content\<close> and \<^verbatim>\<open>showPickupInfo\<close> only, also between argument objects with
  different further properties.
\<close>

theorem declared_fields_only:
  fixes a :: "'x render_args_scheme" and a' :: "'y render_args_scheme"
  shows
  "((\<forall>k \<in> {''parentEmail'', ''parentName'', ''childName'', ''itemName''}. b k = b' k) \<longrightarrow>
      waitlist_created e send log (Some b) = waitlist_created e send log (Some b')) \<and>
   ((\<forall>k \<in> {''parentEmail'', ''parentName'', ''childName'', ''itemName'', ''preferredDay'',
            ''note''}. b k = b' k) \<longrightarrow>
      reservation_created e send log (Some b) = reservation_created e send log (Some b')) \<and>
   ((\<forall>k \<in> {''parentEmail'', ''parentName'', ''childName'', ''itemName'', ''newStatus'',
            ''preferredDay''}. b k = b' k) \<longrightarrow>
      status_updated e send log (Some b) = status_updated e send log (Some b')) \<and>
   (title a = title a' \<and> content a = content a' \<and> showPickupInfo a = showPickupInfo a' \<longrightarrow>
      renderBrandedEmail a = renderBrandedEmail a')"
proof -
  have g: "get_field b k = get_field b' k" if "b k = b' k" for k
    using that by (simp add: get_field_def)
  have w: "waitlist_created e send log (Some b) = waitlist_created e send log (Some b')"
    if "\<forall>k \<in> {''parentEmail'', ''parentName'', ''childName'', ''itemName''}. b k = b' k"
    using that by (simp add: waitlist_created_def g)
  have r: "reservation_created e send log (Some b) = reservation_created e send log (Some b')"
    if "\<forall>k \<in> {''parentEmail'', ''parentName'', ''childName'', ''itemName'', ''preferredDay'',
            ''note''}. b k = b' k"
    using that by (simp add: reservation_created_def g)
  have s: "status_updated e send log (Some b) = status_updated e send log (Some b')"
    if "\<forall>k \<in> {''parentEmail'', ''parentName'', ''childName'', ''itemName'', ''newStatus'',
            ''preferredDay''}. b k = b' k"
    using that by (simp add: status_updated_def g)
  have p: "renderBrandedEmail a = renderBrandedEmail a'"
    if "title a = title a' \<and> content a = content a' \<and> showPickupInfo a = showPickupInfo a'"
    using that by (simp add: renderBrandedEmail_def)
  from w r s p show ?thesis by blast
qed

theorem declared_fields_only_witness:
  "body_waitlist ''parentEmail'' = body_waitlist_extra ''parentEmail'' \<and>
   body_waitlist ''parentName'' = body_waitlist_extra ''parentName'' \<and>
   body_waitlist ''childName'' = body_waitlist_extra ''childName'' \<and>
   body_waitlist ''itemName'' = body_waitlist_extra ''itemName'' \<and>
   body_waitlist ''preferredDay'' \<noteq> body_waitlist_extra ''preferredDay'' \<and>
   body_waitlist ''note'' \<noteq> body_waitlist_extra ''note'' \<and>
   waitlist_created env_admin accept_all [] (Some body_waitlist) =
     waitlist_created env_admin accept_all [] (Some body_waitlist_extra)"
proof -
  have h: "\<forall>k \<in> {''parentEmail'', ''parentName'', ''childName'', ''itemName''}.
             body_waitlist k = body_waitlist_extra k"
    by (simp add: body_waitlist_def body_waitlist_extra_def)
  have d: "body_waitlist ''preferredDay'' \<noteq> body_waitlist_extra ''preferredDay''"
    "body_waitlist ''note'' \<noteq> body_waitlist_extra ''note''"
    by (simp_all add: body_waitlist_def body_waitlist_extra_def)
  from declared_fields_only[of body_waitlist body_waitlist_extra env_admin accept_all "[]"] h
  have "waitlist_created env_admin accept_all [] (Some body_waitlist) =
          waitlist_created env_admin accept_all [] (Some body_waitlist_extra)"
    by blast
  with h d show ?thesis by simp
qed

end
